theory Spec2Isabelle
  imports Main
begin

section \<open>Python values, exceptions and the featurizer interface\<close>

text \<open>
  The module \<^verbatim>\<open>xenonpy/descriptor/base.py\<close> defines the class \<^verbatim>\<open>BaseFeature\<close>.
  Its batch driver \<^verbatim>\<open>featurize_many\<close> and the per-item exception wrapper
  \<^verbatim>\<open>featurize_wrapper\<close> are embedded below.

  Python objects that reach the driver are modelled by \<open>pyobj\<close>: integers, the float
  not-a-number, strings, \<^verbatim>\<open>None\<close>, and the three container classes that the driver
  tests with \<^verbatim>\<open>isinstance(entries[0], (tuple, list, np.ndarray))\<close>. Mappings, whose item
  access is by key, are not part of the model.
\<close>

datatype pyobj =
    PyInt int
  | PyNaN
  | PyStr string
  | PyNone
  | PyTuple "pyobj list"
  | PyList "pyobj list"
  | PyArray "pyobj list"

text \<open>Exceptions are values; every \<^verbatim>\<open>raise\<close> of the source is an \<open>Inl\<close> result.\<close>

datatype exn =
    ValueError string
  | Exception string
  | TypeError string
  | AttributeError string
  | NotImplementedError string
  | OtherError string

type_synonym features = "pyobj list"

text \<open>
  \<open>seq_items x\<close> is the sequence of elements of an object that has \<^verbatim>\<open>__getitem__\<close>
  (tuple, list, array, string: a string's elements are its one-character strings), and
  \<open>None\<close> for an object without item access. In this value model the objects with item
  access are also exactly the iterables, so the same function gives the arguments of a
  call \<^verbatim>\<open>f(*x)\<close>.
\<close>

fun seq_items :: "pyobj \<Rightarrow> pyobj list option" where
  "seq_items (PyTuple xs) = Some xs"
| "seq_items (PyList xs) = Some xs"
| "seq_items (PyArray xs) = Some xs"
| "seq_items (PyStr cs) = Some (map (\<lambda>c. PyStr [c]) cs)"
| "seq_items (PyInt n) = None"
| "seq_items PyNaN = None"
| "seq_items PyNone = None"

text \<open>\<^verbatim>\<open>isinstance(x, (tuple, list, np.ndarray))\<close>\<close>

fun isinstance_seq :: "pyobj \<Rightarrow> bool" where
  "isinstance_seq (PyTuple xs) = True"
| "isinstance_seq (PyList xs) = True"
| "isinstance_seq (PyArray xs) = True"
| "isinstance_seq (PyStr cs) = False"
| "isinstance_seq (PyInt n) = False"
| "isinstance_seq PyNaN = False"
| "isinstance_seq PyNone = False"

text \<open>
  \<^verbatim>\<open>zip(entries)\<close> with a single argument: each element becomes a one-element tuple.
  Python 2 returns the list of these tuples; Python 3 returns an iterator over them, which
  the driver consumes once, in the comprehension or in the pool. Both are modelled by the
  list.
\<close>

definition zip_py :: "pyobj list \<Rightarrow> pyobj list" where
  "zip_py xs = map (\<lambda>x. PyTuple [x]) xs"

text \<open>
  A concrete featurizer overrides \<^verbatim>\<open>featurize(self, *x)\<close> and \<^verbatim>\<open>feature_labels(self)\<close>;
  both may raise (in \<^verbatim>\<open>BaseFeature\<close> itself both raise \<^verbatim>\<open>NotImplementedError\<close>). The class
  documentation requires that neither changes the state of the featurizer, so they are
  functions of their arguments.
\<close>

record featurizer =
  featurize :: "pyobj list \<Rightarrow> exn + features"
  feature_labels :: "exn + string list"

definition base_featurizer :: featurizer where
  "base_featurizer =
     \<lparr> featurize = (\<lambda>args. Inl (NotImplementedError ''featurize() is not defined!'')),
       feature_labels = Inl (NotImplementedError ''feature_labels() is not defined!'') \<rparr>"

text \<open>
  What the module takes from its environment: the interpreter's major version
  (\<^verbatim>\<open>sys.version_info[0]\<close>), \<^verbatim>\<open>multiprocessing.cpu_count()\<close>, the text that
  \<^verbatim>\<open>"".join(traceback.format_exception(*sys.exc_info()))\<close> gives for a caught exception, and
  \<^verbatim>\<open>Pool(n).map\<close>. They are library code, not code of this module, and are parameters.
  The function handed to the pool maps an item to the result of the wrapper in a worker.
\<close>

record env =
  py_major :: nat
  cpu_count :: int
  format_exception :: "exn \<Rightarrow> string"
  pool_map :: "int \<Rightarrow> (pyobj \<Rightarrow> exn + features) \<Rightarrow> pyobj list \<Rightarrow> exn + features list"

text \<open>
  The documented behaviour of \<^verbatim>\<open>Pool.map\<close>: when it returns, the results are those of the
  calls, in the order of the items; when it raises, the exception is that of one of the
  calls. Which call's exception is reported when several fail is left open, as is the
  order in which the workers run. A pool that cannot be created (a worker count below 1)
  does not meet this contract.
\<close>

definition pool_map_ok :: "env \<Rightarrow> bool" where
  "pool_map_ok e \<longleftrightarrow>
     (\<forall>n w xs. case pool_map e n w xs of
         Inr rows \<Rightarrow> map w xs = map Inr rows
       | Inl err \<Rightarrow> Inl err \<in> set (map w xs))"

section \<open>The instance and its attributes\<close>

text \<open>
  The observable events of a call: an invocation of the overridden \<^verbatim>\<open>featurize\<close> with its
  positional arguments, an invocation of \<^verbatim>\<open>feature_labels\<close>, and the hand-over of a list of
  items to a worker pool.
\<close>

datatype call = Featurize "pyobj list" | FeatureLabels | PoolMap int "pyobj list"

text \<open>
  The attributes of a \<^verbatim>\<open>BaseFeature\<close> object that the driver reads and writes:
  \<^verbatim>\<open>_n_jobs\<close>, \<^verbatim>\<open>__ignore_errors\<close> and \<^verbatim>\<open>__return_errors\<close> (absent until first assigned),
  together with the log of events and the warnings issued so far.
\<close>

record base_feature =
  n_jobs_attr :: "int option"
  ignore_errors_attr :: "bool option"
  return_errors_attr :: "bool option"
  calls :: "call list"
  warnings :: "string list"

definition set_n_jobs :: "int \<Rightarrow> base_feature \<Rightarrow> base_feature" where
  "set_n_jobs n s = s\<lparr>n_jobs_attr := Some n\<rparr>"

text \<open>\<^verbatim>\<open>return self._n_jobs if hasattr(self, '_n_jobs') else cpu_count()\<close>\<close>

definition n_jobs :: "env \<Rightarrow> base_feature \<Rightarrow> int" where
  "n_jobs e s = (case n_jobs_attr s of Some n \<Rightarrow> n | None \<Rightarrow> cpu_count e)"

definition warn :: "string \<Rightarrow> base_feature \<Rightarrow> base_feature" where
  "warn msg s = s\<lparr>warnings := warnings s @ [msg]\<rparr>"

section \<open>The per-item wrapper\<close>

text \<open>
  \<^verbatim>\<open>self.featurize(*x)\<close>: unpacking an object that is not iterable raises \<^verbatim>\<open>TypeError\<close>
  before the method is entered.
\<close>

definition call_featurize ::
  "featurizer \<Rightarrow> pyobj \<Rightarrow> base_feature \<Rightarrow> (exn + features) \<times> base_feature" where
  "call_featurize f x s =
     (case seq_items x of
        None \<Rightarrow> (Inl (TypeError ''featurize() argument after * must be an iterable''), s)
      | Some args \<Rightarrow> (featurize f args, s\<lparr>calls := calls s @ [Featurize args]\<rparr>))"

definition call_feature_labels ::
  "featurizer \<Rightarrow> base_feature \<Rightarrow> (exn + string list) \<times> base_feature" where
  "call_feature_labels f s = (feature_labels f, s\<lparr>calls := calls s @ [FeatureLabels]\<rparr>)"

text \<open>
  The handler \<^verbatim>\<open>except BaseException:\<close> of \<^verbatim>\<open>featurize_wrapper\<close>, entered with the
  caught exception. An exception raised inside the handler (a missing attribute, a
  failing \<^verbatim>\<open>feature_labels\<close>) leaves the wrapper.
\<close>

definition wrapper_except ::
  "env \<Rightarrow> featurizer \<Rightarrow> exn \<Rightarrow> base_feature \<Rightarrow> (exn + features) \<times> base_feature" where
  "wrapper_except e f err s =
     (case ignore_errors_attr s of
        None \<Rightarrow> (Inl (AttributeError ''_BaseFeature__ignore_errors''), s)
      | Some ignore_errors \<Rightarrow>
          if ignore_errors then
            (case return_errors_attr s of
               None \<Rightarrow> (Inl (AttributeError ''_BaseFeature__return_errors''), s)
             | Some return_errors \<Rightarrow>
                 (case call_feature_labels f s of
                    (Inl err', s') \<Rightarrow> (Inl err', s')
                  | (Inr labels, s') \<Rightarrow>
                      if return_errors then
                        (Inr (replicate (length labels) PyNaN @ [PyStr (format_exception e err)]), s')
                      else
                        (Inr (replicate (length labels) PyNaN), s')))
          else (Inl err, s))"

definition featurize_wrapper ::
  "env \<Rightarrow> featurizer \<Rightarrow> pyobj \<Rightarrow> base_feature \<Rightarrow> (exn + features) \<times> base_feature" where
  "featurize_wrapper e f x s =
     (case return_errors_attr s of
        None \<Rightarrow> wrapper_except e f (AttributeError ''_BaseFeature__return_errors'') s
      | Some return_errors \<Rightarrow>
          (case call_featurize f x s of
             (Inr v, s') \<Rightarrow> (Inr (if return_errors then v @ [PyNaN] else v), s')
           | (Inl err, s') \<Rightarrow> wrapper_except e f err s'))"

section \<open>The batch driver\<close>

text \<open>
  The list comprehension \<^verbatim>\<open>[self.featurize_wrapper(x) for x in entries]\<close>: the items are
  processed in order, and the first exception that leaves the wrapper ends the
  comprehension.
\<close>

fun map_wrapper ::
  "env \<Rightarrow> featurizer \<Rightarrow> pyobj list \<Rightarrow> base_feature \<Rightarrow> (exn + features list) \<times> base_feature" where
  "map_wrapper e f [] s = (Inr [], s)"
| "map_wrapper e f (x # xs) s =
     (case featurize_wrapper e f x s of
        (Inl err, s') \<Rightarrow> (Inl err, s')
      | (Inr row, s') \<Rightarrow>
          (case map_wrapper e f xs s' of
             (Inl err, s'') \<Rightarrow> (Inl err, s'')
           | (Inr rows, s'') \<Rightarrow> (Inr (row # rows), s'')))"

text \<open>
  \<^verbatim>\<open>hasattr(entries, '__getitem__')\<close>, and the elements that \<^verbatim>\<open>len(entries)\<close> counts and
  \<^verbatim>\<open>for x in entries\<close> visits. The driver only iterates over objects that passed the
  \<^verbatim>\<open>__getitem__\<close> test.
\<close>

definition has_getitem :: "pyobj \<Rightarrow> bool" where
  "has_getitem x = (seq_items x \<noteq> None)"

definition iter_py :: "pyobj \<Rightarrow> pyobj list" where
  "iter_py x = (case seq_items x of Some xs \<Rightarrow> xs | None \<Rightarrow> [])"

text \<open>
  \<^verbatim>\<open>if not isinstance(entries[0], (tuple, list, np.ndarray)): entries = zip(entries)\<close>,
  for non-empty entries: when the first entry is not a tuple, list or array, every entry
  is replaced by a one-element tuple.
\<close>

definition zip_entries :: "pyobj \<Rightarrow> pyobj" where
  "zip_entries entries =
     (case iter_py entries of
        [] \<Rightarrow> entries
      | x0 # _ \<Rightarrow> if \<not> isinstance_seq x0 then PyList (zip_py (iter_py entries)) else entries)"

text \<open>
  The test of \<^verbatim>\<open>if not isinstance(entries[0], (tuple, list, np.ndarray))\<close> for non-empty
  entries, and the item that the wrapper is handed for an entry \<open>y\<close> of these entries: the
  one-element tuple of \<open>y\<close> when the entries are zipped, \<open>y\<close> itself otherwise.
\<close>

definition wraps_scalars :: "pyobj \<Rightarrow> bool" where
  "wraps_scalars entries =
     (case iter_py entries of [] \<Rightarrow> False | x0 # _ \<Rightarrow> \<not> isinstance_seq x0)"

definition wrapper_input :: "pyobj \<Rightarrow> pyobj \<Rightarrow> pyobj" where
  "wrapper_input entries y = (if wraps_scalars entries then PyTuple [y] else y)"

definition config_msg :: string where
  "config_msg = ''Please set ignore_errors to True to use return_errors.''"

definition shape_msg :: string where
  "shape_msg = CHR 0x27 # ''entries'' @ CHR 0x27 # '' must be a list-like object''"

definition py2_msg :: string where
  "py2_msg = ''Multiprocessing is not supported in matminer for Python 2.x. Multiprocessing has been disabled. Please upgrade to Python 3.x to enable multiprocessing.''"

text \<open>
  \<^verbatim>\<open>featurize_many(self, entries, ignore_errors=False, return_errors=False)\<close>.
  Under Python 2 a worker count other than 1 is reset to 1 and the method calls itself
  once more on the (possibly zipped) entries. Otherwise the items go to a pool of
  \<open>n_jobs\<close> workers, each of which applies the wrapper of its copy of the instance.
\<close>

function featurize_many ::
  "env \<Rightarrow> featurizer \<Rightarrow> pyobj \<Rightarrow> bool \<Rightarrow> bool \<Rightarrow> base_feature
     \<Rightarrow> (exn + features list) \<times> base_feature" where
  "featurize_many e f entries ignore_errors return_errors s =
     (if return_errors \<and> \<not> ignore_errors then (Inl (ValueError config_msg), s)
      else
        let s1 = s\<lparr>ignore_errors_attr := Some ignore_errors,
                   return_errors_attr := Some return_errors\<rparr>
        in if \<not> has_getitem entries then (Inl (Exception shape_msg), s1)
           else if length (iter_py entries) = 0 then (Inr [], s1)
           else
             let entries' = zip_entries entries
             in if n_jobs e s1 = 1 then map_wrapper e f (iter_py entries') s1
                else if py_major e < 3 then
                  featurize_many e f entries' ignore_errors return_errors
                    (set_n_jobs 1 (warn py2_msg s1))
                else
                  (pool_map e (n_jobs e s1) (\<lambda>x. fst (featurize_wrapper e f x s1))
                     (iter_py entries'),
                   s1\<lparr>calls := calls s1 @ [PoolMap (n_jobs e s1) (iter_py entries')]\<rparr>))"
  by pat_completeness auto
termination
  by (relation "measure (\<lambda>(e, f, entries, ignore_errors, return_errors, s). if n_jobs e s = 1 then 0 else 1)")
     (auto simp: n_jobs_def set_n_jobs_def warn_def)

text \<open>\<^verbatim>\<open>transform(self, X)\<close> is \<^verbatim>\<open>featurize_many(X, ignore_errors=True)\<close>.\<close>

definition transform ::
  "env \<Rightarrow> featurizer \<Rightarrow> pyobj \<Rightarrow> base_feature \<Rightarrow> (exn + features list) \<times> base_feature" where
  "transform e f X s = featurize_many e f X True False s"

section \<open>A concrete featurizer and environment\<close>

text \<open>
  The example of the specification: a featurizer with one label that doubles its single
  integer argument and raises \<^verbatim>\<open>TypeError\<close> on anything else.
\<close>

definition double_featurizer :: featurizer where
  "double_featurizer =
     \<lparr> featurize = (\<lambda>args. case args of
                        [PyInt n] \<Rightarrow> Inr [PyInt (2 * n)]
                      | _ \<Rightarrow> Inl (TypeError ''unsupported operand'')),
       feature_labels = Inr [''double''] \<rparr>"

text \<open>
  A pool that evaluates the calls in the order of the items and reports the first
  exception, if any.
\<close>

fun collect_results :: "(exn + 'a) list \<Rightarrow> exn + 'a list" where
  "collect_results [] = Inr []"
| "collect_results (Inl err # rs) = Inl err"
| "collect_results (Inr r # rs) =
     (case collect_results rs of Inl err \<Rightarrow> Inl err | Inr rows \<Rightarrow> Inr (r # rows))"

definition example_trace :: "exn \<Rightarrow> string" where
  "example_trace err =
     (case err of
        TypeError m \<Rightarrow> ''TypeError: '' @ m
      | ValueError m \<Rightarrow> ''ValueError: '' @ m
      | _ \<Rightarrow> ''Traceback'')"

definition example_env :: "nat \<Rightarrow> env" where
  "example_env major =
     \<lparr> py_major = major, cpu_count = 4, format_exception = example_trace,
       pool_map = (\<lambda>n w xs. collect_results (map w xs)) \<rparr>"

definition fresh_instance :: base_feature where
  "fresh_instance =
     \<lparr> n_jobs_attr = None, ignore_errors_attr = None, return_errors_attr = None,
       calls = [], warnings = [] \<rparr>"

text \<open>
  A featurizer of one argument that returns the number of elements of its argument and
  raises \<^verbatim>\<open>TypeError\<close> on an argument without a length or on another number of arguments.
\<close>

definition length_featurizer :: featurizer where
  "length_featurizer =
     \<lparr> featurize = (\<lambda>args. case args of
                        [x] \<Rightarrow> (case seq_items x of
                                  Some xs \<Rightarrow> Inr [PyInt (int (length xs))]
                                | None \<Rightarrow> Inl (TypeError ''object has no len()''))
                      | _ \<Rightarrow> Inl (TypeError ''featurize() takes 1 positional argument'')),
       feature_labels = Inr [''length''] \<rparr>"

declare featurize_many.simps [simp del]

section \<open>Helper lemmas\<close>

lemma call_featurize_attrs [simp]:
  "ignore_errors_attr (snd (call_featurize f x s)) = ignore_errors_attr s"
  "return_errors_attr (snd (call_featurize f x s)) = return_errors_attr s"
  "n_jobs_attr (snd (call_featurize f x s)) = n_jobs_attr s"
  "warnings (snd (call_featurize f x s)) = warnings s"
  by (simp_all add: call_featurize_def split: option.splits)

lemma call_featurize_fst:
  "fst (call_featurize f x s) = fst (call_featurize f x s')"
  by (simp add: call_featurize_def split: option.splits)

lemma wrapper_fst_flags:
  "ignore_errors_attr s = ignore_errors_attr s' \<Longrightarrow> return_errors_attr s = return_errors_attr s' \<Longrightarrow>
   fst (featurize_wrapper e f x s) = fst (featurize_wrapper e f x s')"
  by (auto simp: featurize_wrapper_def wrapper_except_def call_featurize_def call_feature_labels_def
      split: option.splits prod.splits sum.splits)

lemma wrapper_attrs [simp]:
  "ignore_errors_attr (snd (featurize_wrapper e f x s)) = ignore_errors_attr s"
  "return_errors_attr (snd (featurize_wrapper e f x s)) = return_errors_attr s"
  "n_jobs_attr (snd (featurize_wrapper e f x s)) = n_jobs_attr s"
  "warnings (snd (featurize_wrapper e f x s)) = warnings s"
  by (auto simp: featurize_wrapper_def wrapper_except_def call_featurize_def call_feature_labels_def
      split: option.splits prod.splits sum.splits)

lemma map_wrapper_contract:
  "case fst (map_wrapper e f xs s) of
     Inr rows \<Rightarrow> map (\<lambda>x. fst (featurize_wrapper e f x s)) xs = map Inr rows
   | Inl err \<Rightarrow> Inl err \<in> set (map (\<lambda>x. fst (featurize_wrapper e f x s)) xs)"
proof (induction xs arbitrary: s)
  case Nil
  show ?case by simp
next
  case (Cons x xs)
  obtain r s' where w: "featurize_wrapper e f x s = (r, s')" by (cases "featurize_wrapper e f x s")
  have flags: "ignore_errors_attr s' = ignore_errors_attr s" "return_errors_attr s' = return_errors_attr s"
    using wrapper_attrs(1,2) [of e f x s] w by simp_all
  have same: "\<And>y. fst (featurize_wrapper e f y s') = fst (featurize_wrapper e f y s)"
    using flags by (rule wrapper_fst_flags)
  show ?case
  proof (cases r)
    case (Inl err)
    with w show ?thesis by simp
  next
    case (Inr row)
    from Cons.IH [of s'] show ?thesis
      using w Inr by (auto simp: same split: sum.splits prod.splits)
  qed
qed

lemma iter_zip_entries:
  "iter_py (zip_entries entries) =
     (case iter_py entries of [] \<Rightarrow> [] | x0 # _ \<Rightarrow>
        if isinstance_seq x0 then iter_py entries else zip_py (iter_py entries))"
  by (simp add: zip_entries_def iter_py_def split: list.splits option.splits)

lemma length_iter_zip_entries [simp]:
  "length (iter_py (zip_entries entries)) = length (iter_py entries)"
  by (simp add: iter_zip_entries zip_py_def split: list.splits)

lemma has_getitem_zip_entries [simp]:
  "has_getitem entries \<Longrightarrow> has_getitem (zip_entries entries)"
  by (simp add: zip_entries_def has_getitem_def split: list.splits)

lemma zip_entries_idem [simp]:
  "zip_entries (zip_entries entries) = zip_entries entries"
  by (auto simp: zip_entries_def iter_py_def zip_py_def split: list.splits option.splits)

lemma featurize_many_seq1:
  assumes "\<not> (return_errors \<and> \<not> ignore_errors)" "has_getitem entries" "iter_py entries \<noteq> []"
    and "n_jobs e (s\<lparr>ignore_errors_attr := Some ignore_errors,
                     return_errors_attr := Some return_errors\<rparr>) = 1"
  shows "featurize_many e f entries ignore_errors return_errors s =
           map_wrapper e f (iter_py (zip_entries entries))
             (s\<lparr>ignore_errors_attr := Some ignore_errors, return_errors_attr := Some return_errors\<rparr>)"
  using assms by (subst featurize_many.simps) (auto simp: Let_def)

lemma featurize_many_py2:
  assumes "\<not> (return_errors \<and> \<not> ignore_errors)" "has_getitem entries" "iter_py entries \<noteq> []"
    and "n_jobs e (s\<lparr>ignore_errors_attr := Some ignore_errors,
                     return_errors_attr := Some return_errors\<rparr>) \<noteq> 1"
    and "py_major e < 3"
  shows "featurize_many e f entries ignore_errors return_errors s =
           map_wrapper e f (iter_py (zip_entries entries))
             (set_n_jobs 1 (warn py2_msg
                (s\<lparr>ignore_errors_attr := Some ignore_errors, return_errors_attr := Some return_errors\<rparr>)))"
proof -
  let ?s2 = "set_n_jobs 1 (warn py2_msg
                (s\<lparr>ignore_errors_attr := Some ignore_errors, return_errors_attr := Some return_errors\<rparr>))"
  have s2: "?s2\<lparr>ignore_errors_attr := Some ignore_errors, return_errors_attr := Some return_errors\<rparr> = ?s2"
    by (simp add: set_n_jobs_def warn_def)
  have one: "n_jobs e ?s2 = 1"
    by (simp add: n_jobs_def set_n_jobs_def warn_def)
  have "featurize_many e f entries ignore_errors return_errors s =
          featurize_many e f (zip_entries entries) ignore_errors return_errors ?s2"
    using assms by (subst featurize_many.simps) (auto simp: Let_def)
  also have "\<dots> = map_wrapper e f (iter_py (zip_entries (zip_entries entries)))
                     (?s2\<lparr>ignore_errors_attr := Some ignore_errors, return_errors_attr := Some return_errors\<rparr>)"
    using assms(1-3) one by (intro featurize_many_seq1) (simp_all add: s2 iter_zip_entries zip_py_def split: list.splits)
  finally show ?thesis by (simp add: s2)
qed

lemma featurize_many_pool:
  assumes "\<not> (return_errors \<and> \<not> ignore_errors)" "has_getitem entries" "iter_py entries \<noteq> []"
    and "n_jobs e (s\<lparr>ignore_errors_attr := Some ignore_errors,
                     return_errors_attr := Some return_errors\<rparr>) \<noteq> 1"
    and "\<not> py_major e < 3"
  shows "featurize_many e f entries ignore_errors return_errors s =
           (pool_map e (n_jobs e (s\<lparr>ignore_errors_attr := Some ignore_errors, return_errors_attr := Some return_errors\<rparr>))
              (\<lambda>x. fst (featurize_wrapper e f x
                 (s\<lparr>ignore_errors_attr := Some ignore_errors, return_errors_attr := Some return_errors\<rparr>)))
              (iter_py (zip_entries entries)),
            s\<lparr>ignore_errors_attr := Some ignore_errors, return_errors_attr := Some return_errors,
              calls := calls s @ [PoolMap (n_jobs e (s\<lparr>ignore_errors_attr := Some ignore_errors, return_errors_attr := Some return_errors\<rparr>))
                 (iter_py (zip_entries entries))]\<rparr>)"
  using assms by (subst featurize_many.simps) (auto simp: Let_def)

lemma featurize_many_contract:
  assumes pool: "pool_map_ok e"
    and cfg: "\<not> (return_errors \<and> \<not> ignore_errors)"
    and seq: "has_getitem entries"
    and ne: "iter_py entries \<noteq> []"
  shows "case fst (featurize_many e f entries ignore_errors return_errors s) of
           Inr rows \<Rightarrow>
             map (\<lambda>x. fst (featurize_wrapper e f x
                    (s\<lparr>ignore_errors_attr := Some ignore_errors,
                       return_errors_attr := Some return_errors\<rparr>)))
               (iter_py (zip_entries entries)) = map Inr rows
         | Inl err \<Rightarrow>
             Inl err \<in> set (map (\<lambda>x. fst (featurize_wrapper e f x
                    (s\<lparr>ignore_errors_attr := Some ignore_errors,
                       return_errors_attr := Some return_errors\<rparr>)))
               (iter_py (zip_entries entries)))"
proof -
  let ?s1 = "s\<lparr>ignore_errors_attr := Some ignore_errors, return_errors_attr := Some return_errors\<rparr>"
  let ?s2 = "set_n_jobs 1 (warn py2_msg ?s1)"
  let ?items = "iter_py (zip_entries entries)"
  have same2: "\<And>x. fst (featurize_wrapper e f x ?s2) = fst (featurize_wrapper e f x ?s1)"
    by (rule wrapper_fst_flags) (simp_all add: set_n_jobs_def warn_def)
  consider (seq1) "n_jobs e ?s1 = 1"
    | (py2) "n_jobs e ?s1 \<noteq> 1" "py_major e < 3"
    | (pool) "n_jobs e ?s1 \<noteq> 1" "\<not> py_major e < 3"
    by blast
  then show ?thesis
  proof cases
    case seq1
    show ?thesis
      using map_wrapper_contract [where e = e and f = f and xs = "?items" and s = "?s1"]
      by (simp only: featurize_many_seq1 [OF cfg seq ne seq1])
  next
    case py2
    show ?thesis
      using map_wrapper_contract [where e = e and f = f and xs = "?items" and s = "?s2"]
      by (simp only: featurize_many_py2 [OF cfg seq ne py2] same2)
  next
    case pool
    have "case pool_map e (n_jobs e ?s1) (\<lambda>x. fst (featurize_wrapper e f x ?s1)) ?items of
            Inr rows \<Rightarrow> map (\<lambda>x. fst (featurize_wrapper e f x ?s1)) ?items = map Inr rows
          | Inl err \<Rightarrow> Inl err \<in> set (map (\<lambda>x. fst (featurize_wrapper e f x ?s1)) ?items)"
      using assms(1) unfolding pool_map_ok_def by blast
    then show ?thesis
      by (simp only: featurize_many_pool [OF cfg seq ne pool] fst_conv)
  qed
qed

lemma collect_results_contract:
  "case collect_results rs of
     Inr rows \<Rightarrow> rs = map Inr rows
   | Inl err \<Rightarrow> Inl err \<in> set rs"
proof (induction rs rule: collect_results.induct)
  case 1
  show ?case by simp
next
  case (2 err rs)
  show ?case by simp
next
  case (3 r rs)
  then show ?case by (simp split: sum.splits)
qed

lemma pool_map_ok_example: "pool_map_ok (example_env major)"
  unfolding pool_map_ok_def
proof (intro allI)
  fix n :: int and w :: "pyobj \<Rightarrow> exn + features" and xs
  show "case pool_map (example_env major) n w xs of
          Inr rows \<Rightarrow> map w xs = map Inr rows
        | Inl err \<Rightarrow> Inl err \<in> set (map w xs)"
    using collect_results_contract [of "map w xs"] by (simp add: example_env_def)
qed

lemma wrapper_success:
  assumes "return_errors_attr s = Some return_errors" "fst (call_featurize f x s) = Inr v"
  shows "fst (featurize_wrapper e f x s) = Inr (if return_errors then v @ [PyNaN] else v)"
  using assms by (cases "call_featurize f x s") (simp add: featurize_wrapper_def)

lemma wrapper_failfast:
  assumes "ignore_errors_attr s = Some False" "return_errors_attr s = Some return_errors"
    and "fst (call_featurize f x s) = Inl err"
  shows "fst (featurize_wrapper e f x s) = Inl err"
proof -
  obtain s' where c: "call_featurize f x s = (Inl err, s')"
    using assms(3) by (cases "call_featurize f x s") simp
  have "ignore_errors_attr s' = Some False"
    using call_featurize_attrs(1) [of f x s] c assms(1) by simp
  then show ?thesis
    using assms(2) c by (simp add: featurize_wrapper_def wrapper_except_def)
qed

lemma wrapper_tolerant:
  assumes "ignore_errors_attr s = Some True" "return_errors_attr s = Some return_errors"
    and "fst (call_featurize f x s) = Inl err" "feature_labels f = Inr labels"
  shows "fst (featurize_wrapper e f x s) =
           Inr (if return_errors
                then replicate (length labels) PyNaN @ [PyStr (format_exception e err)]
                else replicate (length labels) PyNaN)"
proof -
  obtain s' where c: "call_featurize f x s = (Inl err, s')"
    using assms(3) by (cases "call_featurize f x s") simp
  have "ignore_errors_attr s' = Some True" "return_errors_attr s' = Some return_errors"
    using call_featurize_attrs(1,2) [of f x s] c assms(1,2) by simp_all
  then show ?thesis
    using assms(2,4) c
    by (simp add: featurize_wrapper_def wrapper_except_def call_feature_labels_def)
qed

lemma wrapper_failfast_cases:
  assumes "ignore_errors_attr s = Some False" "return_errors_attr s = Some return_errors"
    and "fst (featurize_wrapper e f x s) = Inl err"
  shows "fst (call_featurize f x s) = Inl err"
proof (cases "fst (call_featurize f x s)")
  case (Inl err')
  with wrapper_failfast [OF assms(1,2) Inl, of e] assms(3) show ?thesis by simp
next
  case (Inr v)
  with wrapper_success [OF assms(2) Inr, of e] assms(3) show ?thesis by simp
qed

lemma map_eq_Inr_mem:
  assumes "map w xs = map Inr rows" "x \<in> set xs"
  shows "\<exists>r. w x = Inr r"
proof -
  have "w x \<in> set (map w xs)" using assms(2) by simp
  then have "w x \<in> set (map Inr rows)" using assms(1) by simp
  then show ?thesis by auto
qed

lemma mem_map_Inl:
  assumes "Inl err \<in> set (map w xs)"
  shows "\<exists>y. y \<in> set xs \<and> w y = Inl err"
  using assms by auto

lemma featurize_many_rows:
  assumes "pool_map_ok e" "\<not> (return_errors \<and> \<not> ignore_errors)" "has_getitem entries"
    and "iter_py entries \<noteq> []"
    and "fst (featurize_many e f entries ignore_errors return_errors s) = Inr rows"
  shows "map (\<lambda>x. fst (featurize_wrapper e f x
                    (s\<lparr>ignore_errors_attr := Some ignore_errors,
                       return_errors_attr := Some return_errors\<rparr>)))
               (iter_py (zip_entries entries)) = map Inr rows"
  using featurize_many_contract [OF assms(1-4), of f s] assms(5) by simp

lemma featurize_many_raises:
  assumes "pool_map_ok e" "\<not> (return_errors \<and> \<not> ignore_errors)" "has_getitem entries"
    and "iter_py entries \<noteq> []"
    and "fst (featurize_many e f entries ignore_errors return_errors s) = Inl err"
  shows "\<exists>y. y \<in> set (iter_py (zip_entries entries)) \<and>
             fst (featurize_wrapper e f y
                    (s\<lparr>ignore_errors_attr := Some ignore_errors,
                       return_errors_attr := Some return_errors\<rparr>)) = Inl err"
proof -
  have "Inl err \<in> set (map (\<lambda>x. fst (featurize_wrapper e f x
                    (s\<lparr>ignore_errors_attr := Some ignore_errors,
                       return_errors_attr := Some return_errors\<rparr>)))
               (iter_py (zip_entries entries)))"
    using featurize_many_contract [OF assms(1-4), of f s] assms(5) by simp
  then show ?thesis by (rule mem_map_Inl)
qed

lemma iter_py_nonempty_getitem:
  "iter_py entries \<noteq> [] \<Longrightarrow> has_getitem entries"
  by (simp add: iter_py_def has_getitem_def split: option.splits)

lemmas eval_defs =
  featurize_many.simps Let_def has_getitem_def iter_py_def zip_entries_def zip_py_def
  n_jobs_def set_n_jobs_def warn_def example_env_def fresh_instance_def
  featurize_wrapper_def wrapper_except_def call_featurize_def call_feature_labels_def
  double_featurizer_def example_trace_def

lemma featurize_many_config:
  "return_errors \<Longrightarrow> \<not> ignore_errors \<Longrightarrow>
   featurize_many e f entries ignore_errors return_errors s = (Inl (ValueError config_msg), s)"
  by (simp add: featurize_many.simps)

lemma featurize_many_not_seq:
  assumes "\<not> (return_errors \<and> \<not> ignore_errors)" "\<not> has_getitem entries"
  shows "featurize_many e f entries ignore_errors return_errors s =
           (Inl (Exception shape_msg),
            s\<lparr>ignore_errors_attr := Some ignore_errors, return_errors_attr := Some return_errors\<rparr>)"
  using assms by (subst featurize_many.simps) (auto simp: Let_def)

lemma featurize_many_empty:
  assumes "\<not> (return_errors \<and> \<not> ignore_errors)" "has_getitem entries" "iter_py entries = []"
  shows "featurize_many e f entries ignore_errors return_errors s =
           (Inr [],
            s\<lparr>ignore_errors_attr := Some ignore_errors, return_errors_attr := Some return_errors\<rparr>)"
  using assms by (subst featurize_many.simps) (auto simp: Let_def)

lemma featurize_many_Inr:
  assumes "pool_map_ok e"
    and "fst (featurize_many e f entries ignore_errors return_errors s) = Inr rows"
  shows "\<not> (return_errors \<and> \<not> ignore_errors) \<and> has_getitem entries \<and>
         map (\<lambda>x. fst (featurize_wrapper e f x
                (s\<lparr>ignore_errors_attr := Some ignore_errors,
                   return_errors_attr := Some return_errors\<rparr>)))
           (iter_py (zip_entries entries)) = map Inr rows"
proof -
  have cfg: "\<not> (return_errors \<and> \<not> ignore_errors)"
  proof
    assume "return_errors \<and> \<not> ignore_errors"
    then have "fst (featurize_many e f entries ignore_errors return_errors s) = Inl (ValueError config_msg)"
      by (simp add: featurize_many_config)
    with assms(2) show False by simp
  qed
  have seq: "has_getitem entries"
  proof (rule ccontr)
    assume "\<not> has_getitem entries"
    with cfg have "fst (featurize_many e f entries ignore_errors return_errors s) = Inl (Exception shape_msg)"
      by (simp add: featurize_many_not_seq)
    with assms(2) show False by simp
  qed
  show ?thesis
  proof (cases "iter_py entries = []")
    case True
    then have "iter_py (zip_entries entries) = []" by (simp add: iter_zip_entries)
    moreover have "rows = []"
      using assms(2) featurize_many_empty [OF cfg seq True, of e f s] by simp
    ultimately show ?thesis using cfg seq by simp
  next
    case False
    from featurize_many_rows [OF assms(1) cfg seq False assms(2)] cfg seq
    show ?thesis by blast
  qed
qed

lemma wrapper_row_length:
  assumes "ignore_errors_attr s = Some ignore_errors" "return_errors_attr s = Some return_errors"
    and "feature_labels f = Inr labels"
    and "\<And>args v. featurize f args = Inr v \<Longrightarrow> length v = length labels"
    and "fst (featurize_wrapper e f x s) = Inr row"
  shows "length row = length labels + (if return_errors then 1 else 0)"
proof (cases "fst (call_featurize f x s)")
  case (Inr v)
  obtain args where "seq_items x = Some args" "featurize f args = Inr v"
    using Inr by (auto simp: call_featurize_def split: option.splits)
  then have "length v = length labels" using assms(4) by blast
  moreover have "row = (if return_errors then v @ [PyNaN] else v)"
    using wrapper_success [OF assms(2) Inr, of e] assms(5) by simp
  ultimately show ?thesis by simp
next
  case (Inl err)
  show ?thesis
  proof (cases ignore_errors)
    case True
    with assms(1) have ig: "ignore_errors_attr s = Some True" by simp
    show ?thesis
      using wrapper_tolerant [OF ig assms(2) Inl assms(3), of e] assms(5) by (simp split: if_splits)
  next
    case False
    with assms(1) have ig: "ignore_errors_attr s = Some False" by simp
    show ?thesis
      using wrapper_failfast [OF ig assms(2) Inl, of e] assms(5) by simp
  qed
qed

lemma map_eq_Inr_nth:
  assumes "map w xs = map Inr rows" "i < length rows"
  shows "w (xs ! i) = Inr (rows ! i)"
proof -
  have len: "length xs = length rows" using assms(1) by (metis length_map)
  have "map w xs ! i = map Inr rows ! i" using assms(1) by simp
  then show ?thesis using assms(2) len by simp
qed

lemma map_eq_Inr_set:
  assumes "map w xs = map Inr rows" "row \<in> set rows"
  shows "\<exists>x. x \<in> set xs \<and> w x = Inr row"
proof -
  have "Inr row \<in> set (map Inr rows)" using assms(2) by simp
  then have "Inr row \<in> set (map w xs)" using assms(1) by simp
  then show ?thesis by auto
qed

lemma wrapper_success_ignore_irrelevant:
  assumes "fst (call_featurize f x s) = Inr v"
  shows "fst (featurize_wrapper e f x
            (s\<lparr>ignore_errors_attr := Some ig, return_errors_attr := Some return_errors\<rparr>))
         = Inr (if return_errors then v @ [PyNaN] else v)"
proof -
  let ?s1 = "s\<lparr>ignore_errors_attr := Some ig, return_errors_attr := Some return_errors\<rparr>"
  have re: "return_errors_attr ?s1 = Some return_errors" by simp
  have c: "fst (call_featurize f x ?s1) = Inr v"
    using assms call_featurize_fst [of f x ?s1 s] by simp
  from re c show ?thesis by (rule wrapper_success)
qed

lemma map_Inr_inject:
  "map Inr xs = map Inr ys \<Longrightarrow> xs = ys"
  by simp

lemma config_check_first_examples:
  "fst (featurize_many (example_env 3) double_featurizer PyNone False True fresh_instance)
     = Inl (ValueError config_msg)"
  "fst (featurize_many (example_env 3) double_featurizer PyNone False False fresh_instance)
     = Inl (Exception shape_msg)"
  "fst (featurize_many (example_env 3) double_featurizer (PyTuple []) False True fresh_instance)
     = Inl (ValueError config_msg)"
  "fst (featurize_many (example_env 3) double_featurizer (PyTuple []) False False fresh_instance)
     = Inr []"
  by (simp_all add: eval_defs)

lemma call_featurize_calls:
  "calls (snd (call_featurize f x s)) =
     calls s @ (case seq_items x of None \<Rightarrow> [] | Some args \<Rightarrow> [Featurize args])"
  by (simp add: call_featurize_def split: option.splits)

lemma wrapper_except_calls:
  "calls (snd (wrapper_except e f err s)) = calls s
   \<or> calls (snd (wrapper_except e f err s)) = calls s @ [FeatureLabels]"
  by (simp add: wrapper_except_def call_feature_labels_def split: option.splits sum.splits)

lemma wrapper_calls:
  "\<exists>new. calls (snd (featurize_wrapper e f x s)) = calls s @ new
     \<and> (\<forall>c \<in> set new. c = FeatureLabels \<or> (\<exists>args. seq_items x = Some args \<and> c = Featurize args))"
proof (cases "return_errors_attr s")
  case None
  then have w: "featurize_wrapper e f x s
                  = wrapper_except e f (AttributeError ''_BaseFeature__return_errors'') s"
    by (simp add: featurize_wrapper_def)
  from wrapper_except_calls [of e f "AttributeError ''_BaseFeature__return_errors''" s]
  show ?thesis unfolding w by (elim disjE) (rule exI [of _ "[]"], simp, rule exI [of _ "[FeatureLabels]"], simp)
next
  case (Some re)
  obtain r s' where c: "call_featurize f x s = (r, s')" by (cases "call_featurize f x s")
  have cs: "calls s' = calls s @ (case seq_items x of None \<Rightarrow> [] | Some args \<Rightarrow> [Featurize args])"
    using call_featurize_calls [of f x s] c by simp
  show ?thesis
  proof (cases r)
    case (Inr v)
    then have "snd (featurize_wrapper e f x s) = s'"
      using Some c by (simp add: featurize_wrapper_def)
    then show ?thesis using cs by (cases "seq_items x") auto
  next
    case (Inl err)
    then have w: "featurize_wrapper e f x s = wrapper_except e f err s'"
      using Some c by (simp add: featurize_wrapper_def)
    from wrapper_except_calls [of e f err s']
    show ?thesis unfolding w using cs by (cases "seq_items x") auto
  qed
qed

lemma map_wrapper_calls:
  "\<exists>new. calls (snd (map_wrapper e f xs s)) = calls s @ new
     \<and> (\<forall>c \<in> set new. c = FeatureLabels
            \<or> (\<exists>x args. x \<in> set xs \<and> seq_items x = Some args \<and> c = Featurize args))"
proof (induction xs arbitrary: s)
  case Nil
  show ?case by simp
next
  case (Cons x xs)
  obtain r s' where w: "featurize_wrapper e f x s = (r, s')" by (cases "featurize_wrapper e f x s")
  from wrapper_calls [of e f x s] w
  obtain n1 where n1: "calls s' = calls s @ n1"
    "\<forall>c \<in> set n1. c = FeatureLabels \<or> (\<exists>args. seq_items x = Some args \<and> c = Featurize args)"
    by auto
  show ?case
  proof (cases r)
    case (Inl err)
    then have "snd (map_wrapper e f (x # xs) s) = s'" using w by simp
    then show ?thesis using n1 by auto
  next
    case (Inr row)
    from Cons.IH [of s']
    obtain n2 where n2: "calls (snd (map_wrapper e f xs s')) = calls s' @ n2"
      "\<forall>c \<in> set n2. c = FeatureLabels
            \<or> (\<exists>y args. y \<in> set xs \<and> seq_items y = Some args \<and> c = Featurize args)"
      by blast
    have "snd (map_wrapper e f (x # xs) s) = snd (map_wrapper e f xs s')"
      using w Inr by (simp split: prod.splits sum.splits)
    then have "calls (snd (map_wrapper e f (x # xs) s)) = calls s @ (n1 @ n2)"
      using n1(1) n2(1) by simp
    moreover have "\<forall>c \<in> set (n1 @ n2). c = FeatureLabels
            \<or> (\<exists>y args. y \<in> set (x # xs) \<and> seq_items y = Some args \<and> c = Featurize args)"
      using n1(2) n2(2) by auto
    ultimately show ?thesis by blast
  qed
qed

lemma featurize_many_calls:
  "\<exists>new. calls (snd (featurize_many e f entries ignore_errors return_errors s)) = calls s @ new
     \<and> (\<forall>c \<in> set new. c = FeatureLabels
            \<or> (\<exists>x args. x \<in> set (iter_py (zip_entries entries)) \<and> seq_items x = Some args
                  \<and> c = Featurize args)
            \<or> (\<exists>n. c = PoolMap n (iter_py (zip_entries entries))))"
proof -
  let ?s1 = "s\<lparr>ignore_errors_attr := Some ignore_errors, return_errors_attr := Some return_errors\<rparr>"
  let ?s2 = "set_n_jobs 1 (warn py2_msg ?s1)"
  let ?items = "iter_py (zip_entries entries)"
  have c1: "calls ?s1 = calls s" by simp
  have c2: "calls ?s2 = calls s" by (simp add: set_n_jobs_def warn_def)
  consider (config) "return_errors \<and> \<not> ignore_errors"
    | (noseq) "\<not> (return_errors \<and> \<not> ignore_errors)" "\<not> has_getitem entries"
    | (empty) "\<not> (return_errors \<and> \<not> ignore_errors)" "has_getitem entries" "iter_py entries = []"
    | (seq1) "\<not> (return_errors \<and> \<not> ignore_errors)" "has_getitem entries" "iter_py entries \<noteq> []"
        "n_jobs e ?s1 = 1"
    | (py2) "\<not> (return_errors \<and> \<not> ignore_errors)" "has_getitem entries" "iter_py entries \<noteq> []"
        "n_jobs e ?s1 \<noteq> 1" "py_major e < 3"
    | (pool) "\<not> (return_errors \<and> \<not> ignore_errors)" "has_getitem entries" "iter_py entries \<noteq> []"
        "n_jobs e ?s1 \<noteq> 1" "\<not> py_major e < 3"
    by blast
  then show ?thesis
  proof cases
    case config
    then have "calls (snd (featurize_many e f entries ignore_errors return_errors s)) = calls s @ []"
      by (simp add: featurize_many_config)
    then show ?thesis by (intro exI [of _ "[]"]) simp
  next
    case noseq
    then have "calls (snd (featurize_many e f entries ignore_errors return_errors s)) = calls s @ []"
      by (simp add: featurize_many_not_seq)
    then show ?thesis by (intro exI [of _ "[]"]) simp
  next
    case empty
    then have "calls (snd (featurize_many e f entries ignore_errors return_errors s)) = calls s @ []"
      by (simp add: featurize_many_empty)
    then show ?thesis by (intro exI [of _ "[]"]) simp
  next
    case seq1
    from map_wrapper_calls [of e f ?items ?s1]
    show ?thesis unfolding featurize_many_seq1 [OF seq1] c1 by blast
  next
    case py2
    from map_wrapper_calls [of e f ?items ?s2]
    show ?thesis unfolding featurize_many_py2 [OF py2] c2 by blast
  next
    case pool
    have "calls (snd (featurize_many e f entries ignore_errors return_errors s))
            = calls s @ [PoolMap (n_jobs e ?s1) ?items]"
      unfolding featurize_many_pool [OF pool] by simp
    then show ?thesis by (intro exI [of _ "[PoolMap (n_jobs e ?s1) ?items]"]) simp
  qed
qed

lemma featurize_many_zip_entries:
  "featurize_many e f (zip_entries entries) ignore_errors return_errors s
     = featurize_many e f entries ignore_errors return_errors s"
proof -
  let ?s1 = "s\<lparr>ignore_errors_attr := Some ignore_errors, return_errors_attr := Some return_errors\<rparr>"
  have g: "has_getitem (zip_entries entries) = has_getitem entries"
    by (auto simp: zip_entries_def has_getitem_def iter_py_def split: list.splits option.splits)
  have "length (iter_py (zip_entries entries)) = length (iter_py entries)"
    by (rule length_iter_zip_entries)
  then have n: "(iter_py (zip_entries entries) = []) = (iter_py entries = [])"
    by (metis length_0_conv)
  consider (config) "return_errors \<and> \<not> ignore_errors"
    | (noseq) "\<not> (return_errors \<and> \<not> ignore_errors)" "\<not> has_getitem entries"
    | (empty) "\<not> (return_errors \<and> \<not> ignore_errors)" "has_getitem entries" "iter_py entries = []"
    | (seq1) "\<not> (return_errors \<and> \<not> ignore_errors)" "has_getitem entries" "iter_py entries \<noteq> []"
        "n_jobs e ?s1 = 1"
    | (py2) "\<not> (return_errors \<and> \<not> ignore_errors)" "has_getitem entries" "iter_py entries \<noteq> []"
        "n_jobs e ?s1 \<noteq> 1" "py_major e < 3"
    | (pool) "\<not> (return_errors \<and> \<not> ignore_errors)" "has_getitem entries" "iter_py entries \<noteq> []"
        "n_jobs e ?s1 \<noteq> 1" "\<not> py_major e < 3"
    by blast
  then show ?thesis
  proof cases
    case config
    then show ?thesis by (simp add: featurize_many_config)
  next
    case noseq
    then show ?thesis using g by (simp add: featurize_many_not_seq)
  next
    case empty
    then show ?thesis using g n by (simp add: featurize_many_empty)
  next
    case seq1
    have z: "\<not> (return_errors \<and> \<not> ignore_errors)" "has_getitem (zip_entries entries)"
      "iter_py (zip_entries entries) \<noteq> []" "n_jobs e ?s1 = 1"
      using seq1 g n by simp_all
    show ?thesis
      unfolding featurize_many_seq1 [OF seq1] featurize_many_seq1 [OF z] zip_entries_idem ..
  next
    case py2
    have z: "\<not> (return_errors \<and> \<not> ignore_errors)" "has_getitem (zip_entries entries)"
      "iter_py (zip_entries entries) \<noteq> []" "n_jobs e ?s1 \<noteq> 1" "py_major e < 3"
      using py2 g n by simp_all
    show ?thesis
      unfolding featurize_many_py2 [OF py2] featurize_many_py2 [OF z] zip_entries_idem ..
  next
    case pool
    have z: "\<not> (return_errors \<and> \<not> ignore_errors)" "has_getitem (zip_entries entries)"
      "iter_py (zip_entries entries) \<noteq> []" "n_jobs e ?s1 \<noteq> 1" "\<not> py_major e < 3"
      using pool g n by simp_all
    show ?thesis
      unfolding featurize_many_pool [OF pool] featurize_many_pool [OF z] zip_entries_idem ..
  qed
qed

lemma zip_entries_scalars:
  assumes "iter_py entries \<noteq> []" "\<forall>x \<in> set (iter_py entries). \<not> isinstance_seq x"
  shows "zip_entries entries = PyList (map (\<lambda>x. PyTuple [x]) (iter_py entries))"
  using assms by (cases "iter_py entries") (simp_all add: zip_entries_def zip_py_def)

lemma map_all_Inr:
  assumes "\<And>y. \<exists>r. w y = Inr r"
  shows "\<exists>rs. map w xs = map Inr rs"
proof (induction xs)
  case Nil
  show ?case by simp
next
  case (Cons x xs)
  then obtain rs where rs: "map w xs = map Inr rs" by blast
  from assms obtain r where "w x = Inr r" by blast
  with rs have "map w (x # xs) = map Inr (r # rs)" by simp
  then show ?case by blast
qed

lemma wrapper_tolerant_total:
  assumes "ignore_errors_attr s = Some True" "return_errors_attr s = Some return_errors"
    and "feature_labels f = Inr labels"
  shows "\<exists>r. fst (featurize_wrapper e f y s) = Inr r"
proof (cases "fst (call_featurize f y s)")
  case (Inl err)
  from wrapper_tolerant [OF assms(1,2) Inl assms(3)] show ?thesis by blast
next
  case (Inr v)
  from wrapper_success [OF assms(2) Inr] show ?thesis by blast
qed

lemma featurize_many_tolerant:
  assumes "pool_map_ok e" "has_getitem entries" "feature_labels f = Inr labels"
    and "map (\<lambda>x. fst (featurize_wrapper e f x
                (s\<lparr>ignore_errors_attr := Some True, return_errors_attr := Some return_errors\<rparr>)))
           (iter_py (zip_entries entries)) = map Inr rs"
  shows "fst (featurize_many e f entries True return_errors s) = Inr rs"
proof (cases "iter_py entries = []")
  case True
  then have "iter_py (zip_entries entries) = []" by (simp add: iter_zip_entries)
  with assms(4) have "rs = []" by simp
  moreover have "\<not> (return_errors \<and> \<not> True)" by simp
  ultimately show ?thesis using assms(2) True by (simp add: featurize_many_empty)
next
  case False
  let ?s1 = "s\<lparr>ignore_errors_attr := Some True, return_errors_attr := Some return_errors\<rparr>"
  have cfg: "\<not> (return_errors \<and> \<not> True)" by simp
  have flags: "ignore_errors_attr ?s1 = Some True" "return_errors_attr ?s1 = Some return_errors"
    by simp_all
  show ?thesis
  proof (cases "fst (featurize_many e f entries True return_errors s)")
    case (Inl err)
    from featurize_many_raises [OF assms(1) cfg assms(2) False Inl]
    obtain y where "fst (featurize_wrapper e f y ?s1) = Inl err" by blast
    moreover from wrapper_tolerant_total [OF flags assms(3)]
    obtain r where "fst (featurize_wrapper e f y ?s1) = Inr r" by blast
    ultimately show ?thesis by simp
  next
    case (Inr rows)
    from featurize_many_rows [OF assms(1) cfg assms(2) False Inr] assms(4)
    have "map Inr rows = map Inr rs" by simp
    then have "rows = rs" by (rule map_Inr_inject)
    with Inr show ?thesis by simp
  qed
qed

lemma map_wrapper_first_failure:
  assumes "ignore_errors_attr s = Some False" "return_errors_attr s = Some return_errors"
    and "\<forall>z \<in> set ys. \<exists>v. fst (call_featurize f z s) = Inr v"
    and "fst (call_featurize f y s) = Inl err"
  shows "fst (map_wrapper e f (ys @ y # zs) s) = Inl err"
  using assms
proof (induction ys arbitrary: s)
  case Nil
  from wrapper_failfast [OF Nil(1,2,4)]
  have "fst (featurize_wrapper e f y s) = Inl err" .
  then show ?case by (cases "featurize_wrapper e f y s") simp
next
  case (Cons z ys)
  from Cons.prems(3) obtain v where v: "fst (call_featurize f z s) = Inr v" by auto
  obtain r s' where w: "featurize_wrapper e f z s = (r, s')" by (cases "featurize_wrapper e f z s")
  from wrapper_success [OF Cons.prems(2) v, of e] w
  obtain row where row: "r = Inr row" by simp
  have flags: "ignore_errors_attr s' = Some False" "return_errors_attr s' = Some return_errors"
    using wrapper_attrs(1,2) [of e f z s] w Cons.prems(1,2) by simp_all
  have ok: "\<forall>z \<in> set ys. \<exists>v. fst (call_featurize f z s') = Inr v"
  proof
    fix u assume "u \<in> set ys"
    with Cons.prems(3) obtain v' where "fst (call_featurize f u s) = Inr v'" by auto
    then have "fst (call_featurize f u s') = Inr v'"
      using call_featurize_fst [of f u s' s] by simp
    then show "\<exists>v. fst (call_featurize f u s') = Inr v" by blast
  qed
  have fails: "fst (call_featurize f y s') = Inl err"
    using Cons.prems(4) call_featurize_fst [of f y s' s] by simp
  from Cons.IH [OF flags ok fails]
  have "fst (map_wrapper e f (ys @ y # zs) s') = Inl err" .
  then show ?case using w row by (cases "map_wrapper e f (ys @ y # zs) s'") simp
qed

lemma featurize_many_sequential_first_failure:
  assumes "n_jobs e s = 1 \<or> py_major e < 3"
    and "iter_py (zip_entries entries) = ys @ y # zs"
    and "\<forall>z \<in> set ys. \<exists>v. fst (call_featurize f z s) = Inr v"
    and "fst (call_featurize f y s) = Inl err"
  shows "fst (featurize_many e f entries False False s) = Inl err"
proof -
  let ?s1 = "s\<lparr>ignore_errors_attr := Some False, return_errors_attr := Some False\<rparr>"
  let ?s2 = "set_n_jobs 1 (warn py2_msg ?s1)"
  have cfg: "\<not> (False \<and> \<not> False)" by simp
  have ne: "iter_py entries \<noteq> []" using assms(2) by (auto simp: iter_zip_entries)
  then have seq: "has_getitem entries" by (rule iter_py_nonempty_getitem)
  have nj: "n_jobs e ?s1 = n_jobs e s" by (simp add: n_jobs_def)
  have ok: "\<And>t. \<forall>z \<in> set ys. \<exists>v. fst (call_featurize f z t) = Inr v"
  proof
    fix t u assume "u \<in> set ys"
    with assms(3) obtain v' where "fst (call_featurize f u s) = Inr v'" by auto
    then have "fst (call_featurize f u t) = Inr v'"
      using call_featurize_fst [of f u t s] by simp
    then show "\<exists>v. fst (call_featurize f u t) = Inr v" by blast
  qed
  have fails: "\<And>t. fst (call_featurize f y t) = Inl err"
    using assms(4) call_featurize_fst [of f y _ s] by simp
  show ?thesis
  proof (cases "n_jobs e ?s1 = 1")
    case True
    have f1: "ignore_errors_attr ?s1 = Some False" "return_errors_attr ?s1 = Some False" by simp_all
    show ?thesis
      unfolding featurize_many_seq1 [OF cfg seq ne True] assms(2)
      by (rule map_wrapper_first_failure [OF f1 ok fails])
  next
    case False
    with assms(1) nj have py: "py_major e < 3" by simp
    have f2: "ignore_errors_attr ?s2 = Some False" "return_errors_attr ?s2 = Some False"
      by (simp_all add: set_n_jobs_def warn_def)
    show ?thesis
      unfolding featurize_many_py2 [OF cfg seq ne False py] assms(2)
      by (rule map_wrapper_first_failure [OF f2 ok fails])
  qed
qed

lemma first_failing_item:
  assumes "x \<in> set xs" "fst (call_featurize f x s) = Inl err0"
  shows "\<exists>ys y zs err. xs = ys @ y # zs \<and> fst (call_featurize f y s) = Inl err
           \<and> (\<forall>z \<in> set ys. \<exists>v. fst (call_featurize f z s) = Inr v)"
proof -
  let ?P = "\<lambda>z. \<exists>err. fst (call_featurize f z s) = Inl err"
  have "\<exists>x \<in> set xs. ?P x" using assms by blast
  from split_list_first_prop [OF this]
  obtain ys y zs where d: "xs = ys @ y # zs" "?P y" "\<forall>z \<in> set ys. \<not> ?P z" by blast
  have "\<forall>z \<in> set ys. \<exists>v. fst (call_featurize f z s) = Inr v"
  proof
    fix z assume "z \<in> set ys"
    with d(3) have "\<not> ?P z" by blast
    then show "\<exists>v. fst (call_featurize f z s) = Inr v"
      by (cases "fst (call_featurize f z s)") auto
  qed
  with d(1,2) show ?thesis by blast
qed

lemma featurize_many_failfast_raises:
  assumes "pool_map_ok e"
    and "x \<in> set (iter_py (zip_entries entries))"
    and "fst (call_featurize f x s) = Inl err0"
  shows "\<exists>y err. y \<in> set (iter_py (zip_entries entries))
           \<and> fst (call_featurize f y s) = Inl err
           \<and> fst (featurize_many e f entries False False s) = Inl err"
proof -
  define s1 where "s1 = s\<lparr>ignore_errors_attr := Some False, return_errors_attr := Some False\<rparr>"
  have flags: "ignore_errors_attr s1 = Some False" "return_errors_attr s1 = Some False"
    by (simp_all add: s1_def)
  have ne: "iter_py entries \<noteq> []"
    using assms(2) by (auto simp: iter_zip_entries)
  from ne have seq: "has_getitem entries"
    by (rule iter_py_nonempty_getitem)
  have cfg: "\<not> (False \<and> \<not> False)" by simp
  have "fst (call_featurize f x s1) = Inl err0"
    using assms(3) call_featurize_fst [of f x s1 s] by simp
  with flags have Wx: "fst (featurize_wrapper e f x s1) = Inl err0"
    by (rule wrapper_failfast)
  show ?thesis
  proof (cases "fst (featurize_many e f entries False False s)")
    case (Inl err)
    from featurize_many_raises [OF assms(1) cfg seq ne Inl]
    obtain y where y: "y \<in> set (iter_py (zip_entries entries))"
      "fst (featurize_wrapper e f y s1) = Inl err"
      unfolding s1_def by blast
    from flags y(2) have "fst (call_featurize f y s1) = Inl err"
      by (rule wrapper_failfast_cases)
    then have "fst (call_featurize f y s) = Inl err"
      using call_featurize_fst [of f y s1 s] by simp
    with y(1) Inl show ?thesis by blast
  next
    case (Inr rows)
    from featurize_many_rows [OF assms(1) cfg seq ne Inr]
    have "map (\<lambda>x. fst (featurize_wrapper e f x s1)) (iter_py (zip_entries entries)) = map Inr rows"
      unfolding s1_def .
    then have "\<exists>r. fst (featurize_wrapper e f x s1) = Inr r"
      using assms(2) by (rule map_eq_Inr_mem)
    with Wx show ?thesis by simp
  qed
qed

lemma failed_item_isolated_items:
  assumes "pool_map_ok e"
    and "has_getitem entries_without"
    and "iter_py (zip_entries entries) = ys @ x # zs"
    and "iter_py (zip_entries entries_without) = ys @ zs"
    and "fst (call_featurize f x s) = Inl err"
    and "feature_labels f = Inr labels"
  shows "fst (featurize_wrapper e f x
            (s\<lparr>ignore_errors_attr := Some True, return_errors_attr := Some return_errors\<rparr>))
         = Inr (if return_errors
                then replicate (length labels) PyNaN @ [PyStr (format_exception e err)]
                else replicate (length labels) PyNaN)
       \<and> (\<exists>r1 r2. length r1 = length ys
             \<and> fst (featurize_many e f entries True return_errors s)
                 = Inr (r1 @ (if return_errors
                              then replicate (length labels) PyNaN @ [PyStr (format_exception e err)]
                              else replicate (length labels) PyNaN) # r2)
             \<and> fst (featurize_many e f entries_without True return_errors s) = Inr (r1 @ r2))"
proof -
  let ?s1 = "s\<lparr>ignore_errors_attr := Some True, return_errors_attr := Some return_errors\<rparr>"
  let ?W = "\<lambda>x. fst (featurize_wrapper e f x ?s1)"
  let ?nan = "if return_errors
                then replicate (length labels) PyNaN @ [PyStr (format_exception e err)]
                else replicate (length labels) PyNaN"
  have flags: "ignore_errors_attr ?s1 = Some True" "return_errors_attr ?s1 = Some return_errors"
    by simp_all
  have "fst (call_featurize f x ?s1) = Inl err"
    using assms(5) call_featurize_fst [of f x ?s1 s] by simp
  from wrapper_tolerant [OF flags this assms(6)]
  have Wx: "?W x = Inr ?nan" .
  have total: "\<And>y. \<exists>r. ?W y = Inr r"
    by (rule wrapper_tolerant_total [OF flags assms(6)])
  from map_all_Inr [of ?W ys, OF total] obtain r1 where r1: "map ?W ys = map Inr r1" by blast
  from map_all_Inr [of ?W zs, OF total] obtain r2 where r2: "map ?W zs = map Inr r2" by blast
  have len: "length r1 = length ys" using r1 by (metis length_map)
  have "iter_py entries \<noteq> []" using assms(3) by (auto simp: iter_zip_entries)
  then have seq: "has_getitem entries" by (rule iter_py_nonempty_getitem)
  have "map ?W (iter_py (zip_entries entries)) = map Inr (r1 @ ?nan # r2)"
    unfolding assms(3) using r1 r2 Wx by simp
  from featurize_many_tolerant [OF assms(1) seq assms(6) this]
  have A: "fst (featurize_many e f entries True return_errors s) = Inr (r1 @ ?nan # r2)" .
  have "map ?W (iter_py (zip_entries entries_without)) = map Inr (r1 @ r2)"
    unfolding assms(4) using r1 r2 by simp
  from featurize_many_tolerant [OF assms(1) assms(2) assms(6) this]
  have B: "fst (featurize_many e f entries_without True return_errors s) = Inr (r1 @ r2)" .
  from Wx len A B show ?thesis by blast
qed

lemma iter_zip_entries_wrapper_input:
  "iter_py (zip_entries entries) = map (wrapper_input entries) (iter_py entries)"
proof (cases "wraps_scalars entries")
  case True
  then have "wrapper_input entries = (\<lambda>y. PyTuple [y])"
    by (simp add: wrapper_input_def fun_eq_iff)
  with True show ?thesis
    by (simp add: iter_zip_entries wraps_scalars_def zip_py_def split: list.splits)
next
  case False
  then have "wrapper_input entries = (\<lambda>y. y)"
    by (simp add: wrapper_input_def fun_eq_iff)
  with False show ?thesis
    by (simp add: iter_zip_entries wraps_scalars_def split: list.splits)
qed

lemma wraps_scalars_uniform:
  assumes "iter_py entries = ys @ x # zs" "iter_py entries_without = ys @ zs"
    and "(\<forall>y \<in> set (ys @ x # zs). isinstance_seq y) \<or> (\<forall>y \<in> set (ys @ x # zs). \<not> isinstance_seq y)"
  shows "iter_py entries_without = [] \<or> wraps_scalars entries_without = wraps_scalars entries"
proof (cases "ys @ zs")
  case Nil
  with assms(2) show ?thesis by simp
next
  case (Cons u us)
  then have u: "u \<in> set (ys @ x # zs)" by (metis Un_iff list.set_intros(1,2) set_append)
  obtain v vs where v: "ys @ x # zs = v # vs" by (cases "ys @ x # zs") auto
  then have vin: "v \<in> set (ys @ x # zs)" by simp
  have "isinstance_seq u = isinstance_seq v" using assms(3) u vin by blast
  then have "wraps_scalars entries_without = wraps_scalars entries"
    using assms(1,2) Cons v by (simp add: wraps_scalars_def)
  then show ?thesis by blast
qed

section \<open>The claims\<close>

text \<open>
  C1. Fail-fast mode. Let the entries hold an item \<open>x\<close> (as handed to the wrapper, that
  is after the wrapping of scalars) on which \<^verbatim>\<open>self.featurize(*x)\<close> raises. Then
  \<^verbatim>\<open>featurize_many(entries, ignore_errors=False)\<close>, with \<^verbatim>\<open>return_errors\<close> at its default
  \<^verbatim>\<open>False\<close>, raises: its result is \<open>Inl err\<close>, no list of rows, and \<open>err\<close> is the exception
  that \<^verbatim>\<open>featurize\<close> raised on an item \<open>y\<close> of the entries. When the items are processed
  sequentially (one worker, or Python 2) \<open>y\<close> is the first item on which \<^verbatim>\<open>featurize\<close>
  raises; with a worker pool that behaves as \<open>pool_map_ok\<close> says it is one of the failing
  items. (With \<^verbatim>\<open>return_errors=True\<close> the call is the configuration error of C2 and
  C10.)
\<close>

theorem C1_fail_fast_raises:
  assumes "pool_map_ok e"
    and "x \<in> set (iter_py (zip_entries entries))"
    and "fst (call_featurize f x s) = Inl err0"
  shows "\<exists>y err. y \<in> set (iter_py (zip_entries entries))
           \<and> fst (call_featurize f y s) = Inl err
           \<and> fst (featurize_many e f entries False False s) = Inl err
           \<and> (n_jobs e s = 1 \<or> py_major e < 3 \<longrightarrow>
                (\<exists>ys zs. iter_py (zip_entries entries) = ys @ y # zs
                   \<and> (\<forall>z \<in> set ys. \<exists>v. fst (call_featurize f z s) = Inr v)))"
proof (cases "n_jobs e s = 1 \<or> py_major e < 3")
  case True
  from first_failing_item [OF assms(2,3)]
  obtain ys y zs err where d: "iter_py (zip_entries entries) = ys @ y # zs"
    "fst (call_featurize f y s) = Inl err"
    "\<forall>z \<in> set ys. \<exists>v. fst (call_featurize f z s) = Inr v"
    by blast
  have r: "fst (featurize_many e f entries False False s) = Inl err"
    by (rule featurize_many_sequential_first_failure [OF True d(1) d(3) d(2)])
  have "y \<in> set (iter_py (zip_entries entries))" unfolding d(1) by simp
  with d r show ?thesis by blast
next
  case False
  from featurize_many_failfast_raises [OF assms]
  obtain y err where "y \<in> set (iter_py (zip_entries entries))"
    "fst (call_featurize f y s) = Inl err"
    "fst (featurize_many e f entries False False s) = Inl err"
    by blast
  with False show ?thesis by blast
qed

theorem C1_witness:
  "pool_map_ok (example_env 3)
   \<and> PyTuple [PyStr ''x'']
        \<in> set (iter_py (zip_entries (PyList [PyTuple [PyInt 1], PyTuple [PyStr ''x''], PyInt 5])))
   \<and> fst (call_featurize double_featurizer (PyTuple [PyStr ''x'']) (set_n_jobs 1 fresh_instance))
        = Inl (TypeError ''unsupported operand'')
   \<and> n_jobs (example_env 3) (set_n_jobs 1 fresh_instance) = 1
   \<and> iter_py (zip_entries (PyList [PyTuple [PyInt 1], PyTuple [PyStr ''x''], PyInt 5]))
        = [PyTuple [PyInt 1]] @ PyTuple [PyStr ''x''] # [PyInt 5]
   \<and> fst (call_featurize double_featurizer (PyTuple [PyInt 1]) (set_n_jobs 1 fresh_instance))
        = Inr [PyInt 2]
   \<and> fst (featurize_many (example_env 3) double_featurizer
            (PyList [PyTuple [PyInt 1], PyTuple [PyStr ''x''], PyInt 5]) False False
            (set_n_jobs 1 fresh_instance))
        = Inl (TypeError ''unsupported operand'')
   \<and> fst (featurize_many (example_env 3) double_featurizer
            (PyList [PyTuple [PyInt 1], PyTuple [PyStr ''x''], PyInt 5]) False False fresh_instance)
        = Inl (TypeError ''unsupported operand'')"
proof -
  have mem: "PyTuple [PyStr ''x'']
        \<in> set (iter_py (zip_entries (PyList [PyTuple [PyInt 1], PyTuple [PyStr ''x''], PyInt 5])))"
    by (simp add: iter_py_def zip_entries_def)
  have fails: "fst (call_featurize double_featurizer (PyTuple [PyStr ''x'']) (set_n_jobs 1 fresh_instance))
        = Inl (TypeError ''unsupported operand'')"
    by (simp add: call_featurize_def double_featurizer_def)
  from C1_fail_fast_raises [OF pool_map_ok_example mem fails, of 3]
  show ?thesis using pool_map_ok_example by (simp add: eval_defs)
qed

text \<open>
  C2. For every input, \<^verbatim>\<open>featurize_many\<close> called with \<^verbatim>\<open>return_errors=True\<close> and
  \<^verbatim>\<open>ignore_errors=False\<close> raises the configuration \<^verbatim>\<open>ValueError\<close> before any item is
  processed: the instance is returned as it was, so its event log holds no new
  invocation of \<^verbatim>\<open>featurize\<close> (nor of \<^verbatim>\<open>feature_labels\<close>, nor a hand-over to a pool), and
  the attributes of the instance are not even assigned. The statement holds for every
  featurizer, environment and entries object, sequence or not.
\<close>

theorem C2_config_error_before_any_item:
  "featurize_many e f entries False True s = (Inl (ValueError config_msg), s)
   \<and> calls (snd (featurize_many e f entries False True s)) = calls s"
  by (simp add: featurize_many.simps)

text \<open>
  C3. Whenever \<^verbatim>\<open>featurize_many\<close> returns normally, with a list \<open>rows\<close>, that list has as
  many elements as the entries have items, and its \<open>i\<close>-th element is what the wrapper
  returns for the \<open>i\<close>-th item (with the attributes \<^verbatim>\<open>__ignore_errors\<close> and
  \<^verbatim>\<open>__return_errors\<close> as the call set them): the input order is kept. The item handed to
  the wrapper is the \<open>i\<close>-th entry itself, or the one-element tuple of it when the entries
  were zipped. This covers the sequential path, the Python 2 fallback, a worker pool that
  behaves as \<open>pool_map_ok\<close> says, and the empty sequence.
\<close>

theorem C3_length_and_order:
  assumes "pool_map_ok e"
    and "fst (featurize_many e f entries ignore_errors return_errors s) = Inr rows"
  shows "length rows = length (iter_py entries)
       \<and> (\<forall>i < length rows.
             fst (featurize_wrapper e f (iter_py (zip_entries entries) ! i)
                    (s\<lparr>ignore_errors_attr := Some ignore_errors,
                       return_errors_attr := Some return_errors\<rparr>)) = Inr (rows ! i))
       \<and> (iter_py (zip_entries entries) = iter_py entries
            \<or> iter_py (zip_entries entries) = map (\<lambda>x. PyTuple [x]) (iter_py entries))"
proof -
  let ?W = "\<lambda>x. fst (featurize_wrapper e f x
                (s\<lparr>ignore_errors_attr := Some ignore_errors,
                   return_errors_attr := Some return_errors\<rparr>))"
  have eq: "map ?W (iter_py (zip_entries entries)) = map Inr rows"
    using featurize_many_Inr [OF assms] by blast
  have "length (iter_py (zip_entries entries)) = length rows"
    using eq by (metis length_map)
  then have len: "length rows = length (iter_py entries)" by simp
  have nth: "\<forall>i < length rows. ?W (iter_py (zip_entries entries) ! i) = Inr (rows ! i)"
    using map_eq_Inr_nth [OF eq] by blast
  have shape: "iter_py (zip_entries entries) = iter_py entries
            \<or> iter_py (zip_entries entries) = map (\<lambda>x. PyTuple [x]) (iter_py entries)"
    by (simp add: iter_zip_entries zip_py_def split: list.splits)
  from len nth shape show ?thesis by blast
qed

theorem C3_witness:
  "pool_map_ok (example_env 2)
   \<and> fst (featurize_many (example_env 2) double_featurizer (PyList [PyInt 1, PyInt 2]) False False
            fresh_instance) = Inr [[PyInt 2], [PyInt 4]]
   \<and> length [[PyInt 2], [PyInt 4]] = length (iter_py (PyList [PyInt 1, PyInt 2]))
   \<and> fst (featurize_wrapper (example_env 2) double_featurizer
            (iter_py (zip_entries (PyList [PyInt 1, PyInt 2])) ! 1)
            (fresh_instance\<lparr>ignore_errors_attr := Some False, return_errors_attr := Some False\<rparr>))
        = Inr ([[PyInt 2], [PyInt 4]] ! 1)
   \<and> iter_py (zip_entries (PyList [PyInt 1, PyInt 2])) = [PyTuple [PyInt 1], PyTuple [PyInt 2]]"
proof -
  have r: "fst (featurize_many (example_env 2) double_featurizer (PyList [PyInt 1, PyInt 2]) False False
            fresh_instance) = Inr [[PyInt 2], [PyInt 4]]"
    by (simp add: eval_defs)
  have z: "iter_py (zip_entries (PyList [PyInt 1, PyInt 2])) = [PyTuple [PyInt 1], PyTuple [PyInt 2]]"
    by (simp add: iter_py_def zip_entries_def zip_py_def)
  from C3_length_and_order [OF pool_map_ok_example r]
  have len: "length [[PyInt 2], [PyInt 4]] = length (iter_py (PyList [PyInt 1, PyInt 2]))"
    and nth: "\<forall>i < length [[PyInt 2], [PyInt 4]].
             fst (featurize_wrapper (example_env 2) double_featurizer
                    (iter_py (zip_entries (PyList [PyInt 1, PyInt 2])) ! i)
                    (fresh_instance\<lparr>ignore_errors_attr := Some False,
                       return_errors_attr := Some False\<rparr>)) = Inr ([[PyInt 2], [PyInt 4]] ! i)"
    by blast+
  from nth have "(1::nat) < length [[PyInt 2], [PyInt 4]] \<longrightarrow>
             fst (featurize_wrapper (example_env 2) double_featurizer
                    (iter_py (zip_entries (PyList [PyInt 1, PyInt 2])) ! 1)
                    (fresh_instance\<lparr>ignore_errors_attr := Some False,
                       return_errors_attr := Some False\<rparr>)) = Inr ([[PyInt 2], [PyInt 4]] ! 1)"
    by (rule spec)
  then have "fst (featurize_wrapper (example_env 2) double_featurizer
                    (iter_py (zip_entries (PyList [PyInt 1, PyInt 2])) ! 1)
                    (fresh_instance\<lparr>ignore_errors_attr := Some False,
                       return_errors_attr := Some False\<rparr>)) = Inr ([[PyInt 2], [PyInt 4]] ! 1)"
    by simp
  with len r z pool_map_ok_example show ?thesis by blast
qed

text \<open>
  C4, as amended. Tolerant mode. Let \<^verbatim>\<open>self.featurize(*x)\<close> raise \<open>err\<close> on the item that the
  wrapper is handed for the entry \<open>x\<close>, and let \<^verbatim>\<open>feature_labels()\<close> return \<open>labels\<close>. With
  \<^verbatim>\<open>ignore_errors=True\<close> the wrapper returns for it a list of \<open>length labels\<close> not-a-number
  values, followed by the formatted trace of \<open>err\<close> as one more element when
  \<^verbatim>\<open>return_errors=True\<close>. The rows of the other items are those of the batch without the
  entry \<open>x\<close>, provided that removing \<open>x\<close> does not change whether \<^verbatim>\<open>featurize_many\<close> wraps
  the entries as one-element tuples, a decision it takes from the first entry alone (it
  cannot change when the entries are all tuples, lists or arrays, or all scalars, see
  \<open>wraps_scalars_uniform\<close>): the result for \<open>ys @ x # zs\<close> is the result for \<open>ys @ zs\<close> with
  the row of \<open>x\<close> inserted at its position. Without the proviso the statement fails, as
  \<open>C4_counterexample\<close> shows.
\<close>

theorem C4_failed_item_isolated:
  assumes "pool_map_ok e"
    and "iter_py entries = ys @ x # zs"
    and "has_getitem entries_without"
    and "iter_py entries_without = ys @ zs"
    and "iter_py entries_without = [] \<or> wraps_scalars entries_without = wraps_scalars entries"
    and "fst (call_featurize f (wrapper_input entries x) s) = Inl err"
    and "feature_labels f = Inr labels"
  shows "fst (featurize_wrapper e f (wrapper_input entries x)
            (s\<lparr>ignore_errors_attr := Some True, return_errors_attr := Some return_errors\<rparr>))
         = Inr (if return_errors
                then replicate (length labels) PyNaN @ [PyStr (format_exception e err)]
                else replicate (length labels) PyNaN)
       \<and> (\<exists>r1 r2. length r1 = length ys
             \<and> fst (featurize_many e f entries True return_errors s)
                 = Inr (r1 @ (if return_errors
                              then replicate (length labels) PyNaN @ [PyStr (format_exception e err)]
                              else replicate (length labels) PyNaN) # r2)
             \<and> fst (featurize_many e f entries_without True return_errors s) = Inr (r1 @ r2))"
proof -
  let ?h = "wrapper_input entries"
  have A: "iter_py (zip_entries entries) = map ?h ys @ ?h x # map ?h zs"
    unfolding iter_zip_entries_wrapper_input assms(2) by simp
  have B: "iter_py (zip_entries entries_without) = map ?h ys @ map ?h zs"
  proof (cases "iter_py entries_without = []")
    case True
    with assms(4) have "ys = []" "zs = []" by simp_all
    with True show ?thesis unfolding iter_zip_entries_wrapper_input by simp
  next
    case False
    with assms(5) have "wraps_scalars entries_without = wraps_scalars entries" by blast
    then have "wrapper_input entries_without = ?h"
      by (simp add: wrapper_input_def fun_eq_iff)
    then show ?thesis unfolding iter_zip_entries_wrapper_input assms(4) by simp
  qed
  from failed_item_isolated_items [OF assms(1) assms(3) A B assms(6) assms(7), of return_errors]
  show ?thesis by simp
qed

theorem C4_witness:
  "pool_map_ok (example_env 3)
   \<and> iter_py (PyList [PyInt 1, PyStr ''x'', PyInt 3]) = [PyInt 1] @ PyStr ''x'' # [PyInt 3]
   \<and> has_getitem (PyList [PyInt 1, PyInt 3])
   \<and> iter_py (PyList [PyInt 1, PyInt 3]) = [PyInt 1] @ [PyInt 3]
   \<and> wraps_scalars (PyList [PyInt 1, PyInt 3]) = wraps_scalars (PyList [PyInt 1, PyStr ''x'', PyInt 3])
   \<and> wrapper_input (PyList [PyInt 1, PyStr ''x'', PyInt 3]) (PyStr ''x'') = PyTuple [PyStr ''x'']
   \<and> fst (call_featurize double_featurizer (PyTuple [PyStr ''x'']) fresh_instance)
        = Inl (TypeError ''unsupported operand'')
   \<and> feature_labels double_featurizer = Inr [''double'']
   \<and> fst (featurize_wrapper (example_env 3) double_featurizer (PyTuple [PyStr ''x''])
            (fresh_instance\<lparr>ignore_errors_attr := Some True, return_errors_attr := Some True\<rparr>))
        = Inr [PyNaN, PyStr ''TypeError: unsupported operand'']
   \<and> fst (featurize_many (example_env 3) double_featurizer
            (PyList [PyInt 1, PyStr ''x'', PyInt 3]) True True fresh_instance)
        = Inr [[PyInt 2, PyNaN], [PyNaN, PyStr ''TypeError: unsupported operand''], [PyInt 6, PyNaN]]
   \<and> fst (featurize_many (example_env 3) double_featurizer
            (PyList [PyInt 1, PyInt 3]) True True fresh_instance)
        = Inr [[PyInt 2, PyNaN], [PyInt 6, PyNaN]]"
proof -
  have a: "iter_py (PyList [PyInt 1, PyStr ''x'', PyInt 3]) = [PyInt 1] @ PyStr ''x'' # [PyInt 3]"
    by (simp add: iter_py_def)
  have g: "has_getitem (PyList [PyInt 1, PyInt 3])"
    by (simp add: has_getitem_def)
  have b: "iter_py (PyList [PyInt 1, PyInt 3]) = [PyInt 1] @ [PyInt 3]"
    by (simp add: iter_py_def)
  have w: "wraps_scalars (PyList [PyInt 1, PyInt 3]) = wraps_scalars (PyList [PyInt 1, PyStr ''x'', PyInt 3])"
    by (simp add: wraps_scalars_def iter_py_def)
  then have d: "iter_py (PyList [PyInt 1, PyInt 3]) = []
      \<or> wraps_scalars (PyList [PyInt 1, PyInt 3]) = wraps_scalars (PyList [PyInt 1, PyStr ''x'', PyInt 3])"
    by blast
  have h: "wrapper_input (PyList [PyInt 1, PyStr ''x'', PyInt 3]) (PyStr ''x'') = PyTuple [PyStr ''x'']"
    by (simp add: wrapper_input_def wraps_scalars_def iter_py_def)
  have c: "fst (call_featurize double_featurizer (PyTuple [PyStr ''x'']) fresh_instance)
        = Inl (TypeError ''unsupported operand'')"
    by (simp add: call_featurize_def double_featurizer_def)
  have c': "fst (call_featurize double_featurizer
              (wrapper_input (PyList [PyInt 1, PyStr ''x'', PyInt 3]) (PyStr ''x'')) fresh_instance)
        = Inl (TypeError ''unsupported operand'')"
    unfolding h by (rule c)
  have l: "feature_labels double_featurizer = Inr [''double'']"
    by (simp add: double_featurizer_def)
  from C4_failed_item_isolated [OF pool_map_ok_example a g b d c' l, of 3 True]
  have "fst (featurize_wrapper (example_env 3) double_featurizer (PyTuple [PyStr ''x''])
            (fresh_instance\<lparr>ignore_errors_attr := Some True, return_errors_attr := Some True\<rparr>))
        = Inr (replicate (length [''double'']) PyNaN
                @ [PyStr (format_exception (example_env 3) (TypeError ''unsupported operand''))])"
    unfolding h by simp
  then have r0: "fst (featurize_wrapper (example_env 3) double_featurizer (PyTuple [PyStr ''x''])
            (fresh_instance\<lparr>ignore_errors_attr := Some True, return_errors_attr := Some True\<rparr>))
        = Inr [PyNaN, PyStr ''TypeError: unsupported operand'']"
    by (simp add: example_env_def example_trace_def)
  have r1: "fst (featurize_many (example_env 3) double_featurizer
            (PyList [PyInt 1, PyStr ''x'', PyInt 3]) True True fresh_instance)
        = Inr [[PyInt 2, PyNaN], [PyNaN, PyStr ''TypeError: unsupported operand''], [PyInt 6, PyNaN]]"
    by (simp add: eval_defs)
  have r2: "fst (featurize_many (example_env 3) double_featurizer
            (PyList [PyInt 1, PyInt 3]) True True fresh_instance)
        = Inr [[PyInt 2, PyNaN], [PyInt 6, PyNaN]]"
    by (simp add: eval_defs)
  from pool_map_ok_example a g b w h c l r0 r1 r2 show ?thesis by blast
qed

text \<open>
  The claim C4 as stated fails on the batch \<^verbatim>\<open>[5, (1, 2)]\<close> of the length featurizer in
  tolerant mode. The first entry is a scalar, so every entry is wrapped: \<^verbatim>\<open>featurize(5)\<close>
  raises, \<^verbatim>\<open>featurize((1, 2))\<close> returns \<^verbatim>\<open>[2]\<close>, and the result is \<^verbatim>\<open>[[nan], [2]]\<close>. Without the
  failing entry the batch \<^verbatim>\<open>[(1, 2)]\<close> is not wrapped, \<^verbatim>\<open>featurize(1, 2)\<close> raises, and the row
  of the other item is \<^verbatim>\<open>[nan]\<close> instead of \<^verbatim>\<open>[2]\<close>.
\<close>

theorem C4_counterexample:
  "iter_py (PyList [PyInt 5, PyTuple [PyInt 1, PyInt 2]]) = [] @ PyInt 5 # [PyTuple [PyInt 1, PyInt 2]]
   \<and> iter_py (PyList [PyTuple [PyInt 1, PyInt 2]]) = [] @ [PyTuple [PyInt 1, PyInt 2]]
   \<and> wrapper_input (PyList [PyInt 5, PyTuple [PyInt 1, PyInt 2]]) (PyInt 5) = PyTuple [PyInt 5]
   \<and> fst (call_featurize length_featurizer (PyTuple [PyInt 5]) (set_n_jobs 1 fresh_instance))
        = Inl (TypeError ''object has no len()'')
   \<and> feature_labels length_featurizer = Inr [''length'']
   \<and> fst (featurize_many (example_env 3) length_featurizer
            (PyList [PyInt 5, PyTuple [PyInt 1, PyInt 2]]) True False (set_n_jobs 1 fresh_instance))
        = Inr [[PyNaN], [PyInt 2]]
   \<and> fst (featurize_many (example_env 3) length_featurizer
            (PyList [PyTuple [PyInt 1, PyInt 2]]) True False (set_n_jobs 1 fresh_instance))
        = Inr [[PyNaN]]
   \<and> [[PyNaN], [PyInt 2]] ! 1 \<noteq> [[PyNaN]] ! 0
   \<and> wraps_scalars (PyList [PyInt 5, PyTuple [PyInt 1, PyInt 2]])
   \<and> \<not> wraps_scalars (PyList [PyTuple [PyInt 1, PyInt 2]])"
  by (simp add: eval_defs length_featurizer_def wrapper_input_def wraps_scalars_def)

text \<open>
  C5. Let \<^verbatim>\<open>feature_labels()\<close> return \<open>labels\<close> and let every successful call of
  \<^verbatim>\<open>featurize\<close> return a list as long as \<open>labels\<close>. Then every row of a result that
  \<^verbatim>\<open>featurize_many\<close> returns has the length of \<open>labels\<close>, plus one when
  \<^verbatim>\<open>return_errors=True\<close>, whether the row comes from a successful call or replaces a
  failed one.
\<close>

theorem C5_uniform_length:
  assumes "pool_map_ok e"
    and "feature_labels f = Inr labels"
    and "\<forall>args v. featurize f args = Inr v \<longrightarrow> length v = length labels"
    and "fst (featurize_many e f entries ignore_errors return_errors s) = Inr rows"
  shows "\<forall>row \<in> set rows. length row = length labels + (if return_errors then 1 else 0)"
proof
  fix row assume row: "row \<in> set rows"
  let ?s1 = "s\<lparr>ignore_errors_attr := Some ignore_errors, return_errors_attr := Some return_errors\<rparr>"
  have eq: "map (\<lambda>x. fst (featurize_wrapper e f x ?s1)) (iter_py (zip_entries entries)) = map Inr rows"
    using featurize_many_Inr [OF assms(1,4)] by blast
  from map_eq_Inr_set [OF eq row]
  obtain x where x: "fst (featurize_wrapper e f x ?s1) = Inr row" by blast
  have flags: "ignore_errors_attr ?s1 = Some ignore_errors" "return_errors_attr ?s1 = Some return_errors"
    by simp_all
  have len: "\<And>args v. featurize f args = Inr v \<Longrightarrow> length v = length labels"
    using assms(3) by blast
  show "length row = length labels + (if return_errors then 1 else 0)"
    using flags assms(2) len x by (rule wrapper_row_length)
qed

theorem C5_witness:
  "pool_map_ok (example_env 3)
   \<and> feature_labels double_featurizer = Inr [''double'']
   \<and> fst (featurize_many (example_env 3) double_featurizer
            (PyList [PyTuple [PyInt 1], PyTuple [PyStr ''x'']]) True True fresh_instance)
        = Inr [[PyInt 2, PyNaN], [PyNaN, PyStr ''TypeError: unsupported operand'']]
   \<and> length [PyInt 2, PyNaN] = length [''double''] + 1
   \<and> length [PyNaN, PyStr ''TypeError: unsupported operand''] = length [''double''] + 1"
proof -
  have labels: "feature_labels double_featurizer = Inr [''double'']"
    by (simp add: double_featurizer_def)
  have len: "\<forall>args v. featurize double_featurizer args = Inr v \<longrightarrow> length v = length [''double'']"
    by (auto simp: double_featurizer_def split: list.splits pyobj.splits)
  have r: "fst (featurize_many (example_env 3) double_featurizer
            (PyList [PyTuple [PyInt 1], PyTuple [PyStr ''x'']]) True True fresh_instance)
        = Inr [[PyInt 2, PyNaN], [PyNaN, PyStr ''TypeError: unsupported operand'']]"
    by (simp add: eval_defs)
  from C5_uniform_length [OF pool_map_ok_example labels len r]
  show ?thesis using labels r pool_map_ok_example by simp
qed

text \<open>
  C6, as amended. Let \<^verbatim>\<open>self.featurize(*x)\<close> succeed on every item handed to the wrapper.
  Then \<^verbatim>\<open>featurize_many\<close> with \<^verbatim>\<open>ignore_errors=True\<close> and with \<^verbatim>\<open>ignore_errors=False\<close> give the
  same result when \<^verbatim>\<open>return_errors=False\<close> in both calls (for entries that are no
  sequence both raise the same error, for empty entries both return the empty list).
  With \<^verbatim>\<open>return_errors=True\<close> held equal the two calls differ: the call with
  \<^verbatim>\<open>ignore_errors=False\<close> raises the configuration \<^verbatim>\<open>ValueError\<close>, as
  \<open>C6_counterexample\<close> below shows on a one-item batch whose other call returns a row.
\<close>

theorem C6_valid_config_same_result:
  assumes "pool_map_ok e"
    and "\<forall>x \<in> set (iter_py (zip_entries entries)). \<exists>v. fst (call_featurize f x s) = Inr v"
  shows "fst (featurize_many e f entries True False s) = fst (featurize_many e f entries False False s)
       \<and> fst (featurize_many e f entries False True s) = Inl (ValueError config_msg)"
proof (rule conjI)
  show "fst (featurize_many e f entries False True s) = Inl (ValueError config_msg)"
    by (simp add: featurize_many_config)
next
  show "fst (featurize_many e f entries True False s) = fst (featurize_many e f entries False False s)"
proof (cases "has_getitem entries \<and> iter_py entries \<noteq> []")
  case False
  then consider (noseq) "\<not> has_getitem entries" | (empty) "has_getitem entries" "iter_py entries = []"
    by blast
  then show ?thesis
  proof cases
    case noseq
    then show ?thesis by (simp add: featurize_many_not_seq)
  next
    case empty
    then show ?thesis by (simp add: featurize_many_empty)
  qed
next
  case True
  then have seq: "has_getitem entries" and ne: "iter_py entries \<noteq> []" by simp_all
  let ?items = "iter_py (zip_entries entries)"
  let ?WT = "\<lambda>x. fst (featurize_wrapper e f x
               (s\<lparr>ignore_errors_attr := Some True, return_errors_attr := Some False\<rparr>))"
  let ?WF = "\<lambda>x. fst (featurize_wrapper e f x
               (s\<lparr>ignore_errors_attr := Some False, return_errors_attr := Some False\<rparr>))"
  have cfgT: "\<not> (False \<and> \<not> True)" and cfgF: "\<not> (False \<and> \<not> False)" by simp_all
  have ok: "\<And>x. x \<in> set ?items \<Longrightarrow> \<exists>v. ?WT x = Inr v \<and> ?WF x = Inr v"
  proof -
    fix x assume "x \<in> set ?items"
    with assms(2) obtain v where v: "fst (call_featurize f x s) = Inr v" by blast
    have "?WT x = Inr v" using wrapper_success_ignore_irrelevant [OF v, where e = e and ig = True and return_errors = False] by simp
    moreover have "?WF x = Inr v" using wrapper_success_ignore_irrelevant [OF v, where e = e and ig = False and return_errors = False] by simp
    ultimately show "\<exists>v. ?WT x = Inr v \<and> ?WF x = Inr v" by blast
  qed
  have same: "map ?WT ?items = map ?WF ?items"
  proof (rule map_cong [OF refl])
    fix x assume "x \<in> set ?items"
    from ok [OF this] show "?WT x = ?WF x" by auto
  qed
  obtain rowsT where rT: "fst (featurize_many e f entries True False s) = Inr rowsT"
  proof (cases "fst (featurize_many e f entries True False s)")
    case (Inl err)
    from featurize_many_raises [OF assms(1) cfgT seq ne Inl]
    obtain y where "y \<in> set ?items" "?WT y = Inl err" by blast
    with ok [of y] show ?thesis by auto
  next
    case (Inr rows)
    then show ?thesis by (rule that)
  qed
  obtain rowsF where rF: "fst (featurize_many e f entries False False s) = Inr rowsF"
  proof (cases "fst (featurize_many e f entries False False s)")
    case (Inl err)
    from featurize_many_raises [OF assms(1) cfgF seq ne Inl]
    obtain y where "y \<in> set ?items" "?WF y = Inl err" by blast
    with ok [of y] show ?thesis by auto
  next
    case (Inr rows)
    then show ?thesis by (rule that)
  qed
  have "map ?WT ?items = map Inr rowsT"
    by (rule featurize_many_rows [OF assms(1) cfgT seq ne rT])
  moreover have "map ?WF ?items = map Inr rowsF"
    by (rule featurize_many_rows [OF assms(1) cfgF seq ne rF])
  ultimately have "map Inr rowsT = map Inr rowsF" using same by simp
  then have "rowsT = rowsF" by (rule map_Inr_inject)
  with rT rF show ?thesis by simp
qed
qed

theorem C6_witness:
  "pool_map_ok (example_env 3)
   \<and> fst (call_featurize double_featurizer (PyTuple [PyInt 1]) fresh_instance) = Inr [PyInt 2]
   \<and> fst (call_featurize double_featurizer (PyTuple [PyInt 2]) fresh_instance) = Inr [PyInt 4]
   \<and> fst (featurize_many (example_env 3) double_featurizer (PyArray [PyInt 1, PyInt 2]) True False
            fresh_instance) = Inr [[PyInt 2], [PyInt 4]]
   \<and> fst (featurize_many (example_env 3) double_featurizer (PyArray [PyInt 1, PyInt 2]) True False
            fresh_instance)
       = fst (featurize_many (example_env 3) double_featurizer (PyArray [PyInt 1, PyInt 2]) False False
            fresh_instance)"
proof -
  have ok: "\<forall>x \<in> set (iter_py (zip_entries (PyArray [PyInt 1, PyInt 2]))).
              \<exists>v. fst (call_featurize double_featurizer x fresh_instance) = Inr v"
    by (simp add: iter_py_def zip_entries_def zip_py_def call_featurize_def double_featurizer_def)
  from C6_valid_config_same_result [OF pool_map_ok_example ok]
  show ?thesis using pool_map_ok_example by (simp add: eval_defs)
qed

text \<open>
  The claim C6 as stated, with \<^verbatim>\<open>return_errors\<close> held equal at \<^verbatim>\<open>True\<close>, fails on the batch
  \<^verbatim>\<open>[(1,)]\<close> of the doubling featurizer: the only item succeeds, the tolerant call returns
  \<^verbatim>\<open>[[2, nan]]\<close>, and the fail-fast call raises the configuration error.
\<close>

theorem C6_counterexample:
  "fst (call_featurize double_featurizer (PyTuple [PyInt 1]) (set_n_jobs 1 fresh_instance)) = Inr [PyInt 2]
   \<and> iter_py (zip_entries (PyList [PyTuple [PyInt 1]])) = [PyTuple [PyInt 1]]
   \<and> fst (featurize_many (example_env 3) double_featurizer (PyList [PyTuple [PyInt 1]]) True True
            (set_n_jobs 1 fresh_instance)) = Inr [[PyInt 2, PyNaN]]
   \<and> fst (featurize_many (example_env 3) double_featurizer (PyList [PyTuple [PyInt 1]]) False True
            (set_n_jobs 1 fresh_instance)) = Inl (ValueError config_msg)
   \<and> fst (featurize_many (example_env 3) double_featurizer (PyList [PyTuple [PyInt 1]]) True True
            (set_n_jobs 1 fresh_instance))
       \<noteq> fst (featurize_many (example_env 3) double_featurizer (PyList [PyTuple [PyInt 1]]) False True
            (set_n_jobs 1 fresh_instance))"
  by (simp add: eval_defs)

text \<open>
  C7. Let the entries be a non-empty sequence none of whose items is a tuple, a list or
  an array. Then the items handed to the wrapper are the one-element tuples of the
  entries, in order; the call behaves exactly as the call on the explicit list of these
  tuples; and every invocation of \<^verbatim>\<open>featurize\<close> that the call adds to the event log has as
  its positional arguments a single entry \<open>[x]\<close> (a pool, when one is used, is handed the
  list of one-element tuples).
\<close>

theorem C7_scalars_wrapped:
  assumes "iter_py entries \<noteq> []"
    and "\<forall>x \<in> set (iter_py entries). \<not> isinstance_seq x"
  shows "iter_py (zip_entries entries) = map (\<lambda>x. PyTuple [x]) (iter_py entries)
       \<and> featurize_many e f entries ignore_errors return_errors s
           = featurize_many e f (PyList (map (\<lambda>x. PyTuple [x]) (iter_py entries)))
               ignore_errors return_errors s
       \<and> (\<exists>new. calls (snd (featurize_many e f entries ignore_errors return_errors s)) = calls s @ new
             \<and> (\<forall>c \<in> set new. c = FeatureLabels
                    \<or> (\<exists>x. x \<in> set (iter_py entries) \<and> c = Featurize [x])
                    \<or> (\<exists>n. c = PoolMap n (map (\<lambda>x. PyTuple [x]) (iter_py entries)))))"
proof -
  have z: "zip_entries entries = PyList (map (\<lambda>x. PyTuple [x]) (iter_py entries))"
    using assms by (rule zip_entries_scalars)
  have items: "iter_py (zip_entries entries) = map (\<lambda>x. PyTuple [x]) (iter_py entries)"
    unfolding z by (simp add: iter_py_def)
  have same: "featurize_many e f entries ignore_errors return_errors s
           = featurize_many e f (PyList (map (\<lambda>x. PyTuple [x]) (iter_py entries)))
               ignore_errors return_errors s"
    using featurize_many_zip_entries [of e f entries ignore_errors return_errors s]
    unfolding z by simp
  from featurize_many_calls [of e f entries ignore_errors return_errors s]
  obtain new where new: "calls (snd (featurize_many e f entries ignore_errors return_errors s)) = calls s @ new"
    "\<forall>c \<in> set new. c = FeatureLabels
            \<or> (\<exists>x args. x \<in> set (iter_py (zip_entries entries)) \<and> seq_items x = Some args
                  \<and> c = Featurize args)
            \<or> (\<exists>n. c = PoolMap n (iter_py (zip_entries entries)))"
    by blast
  have "\<forall>c \<in> set new. c = FeatureLabels
                    \<or> (\<exists>x. x \<in> set (iter_py entries) \<and> c = Featurize [x])
                    \<or> (\<exists>n. c = PoolMap n (map (\<lambda>x. PyTuple [x]) (iter_py entries)))"
  proof
    fix c assume "c \<in> set new"
    with new(2) consider "c = FeatureLabels"
      | x args where "x \<in> set (iter_py (zip_entries entries))" "seq_items x = Some args" "c = Featurize args"
      | n where "c = PoolMap n (iter_py (zip_entries entries))"
      by blast
    then show "c = FeatureLabels
                    \<or> (\<exists>x. x \<in> set (iter_py entries) \<and> c = Featurize [x])
                    \<or> (\<exists>n. c = PoolMap n (map (\<lambda>x. PyTuple [x]) (iter_py entries)))"
    proof cases
      case 1
      then show ?thesis by simp
    next
      case 2
      from 2(1) obtain y where "y \<in> set (iter_py entries)" "x = PyTuple [y]"
        unfolding items by auto
      with 2(2,3) show ?thesis by auto
    next
      case 3
      then show ?thesis unfolding items by blast
    qed
  qed
  with new(1) items same show ?thesis by blast
qed

theorem C7_witness:
  "iter_py (PyList [PyInt 1, PyInt 2]) \<noteq> []
   \<and> \<not> isinstance_seq (PyInt 1) \<and> \<not> isinstance_seq (PyInt 2)
   \<and> iter_py (zip_entries (PyList [PyInt 1, PyInt 2])) = [PyTuple [PyInt 1], PyTuple [PyInt 2]]
   \<and> featurize_many (example_env 3) double_featurizer (PyList [PyInt 1, PyInt 2]) False False
         (set_n_jobs 1 fresh_instance)
       = featurize_many (example_env 3) double_featurizer (PyList [PyTuple [PyInt 1], PyTuple [PyInt 2]])
           False False (set_n_jobs 1 fresh_instance)
   \<and> fst (featurize_many (example_env 3) double_featurizer (PyList [PyInt 1, PyInt 2]) False False
         (set_n_jobs 1 fresh_instance)) = Inr [[PyInt 2], [PyInt 4]]
   \<and> calls (snd (featurize_many (example_env 3) double_featurizer (PyList [PyInt 1, PyInt 2]) False False
         (set_n_jobs 1 fresh_instance))) = [Featurize [PyInt 1], Featurize [PyInt 2]]"
proof -
  have ne: "iter_py (PyList [PyInt 1, PyInt 2]) \<noteq> []" by (simp add: iter_py_def)
  have sc: "\<forall>x \<in> set (iter_py (PyList [PyInt 1, PyInt 2])). \<not> isinstance_seq x"
    by (simp add: iter_py_def)
  from C7_scalars_wrapped [OF ne sc, of "example_env 3" double_featurizer False False "set_n_jobs 1 fresh_instance"]
  have "iter_py (zip_entries (PyList [PyInt 1, PyInt 2]))
          = map (\<lambda>x. PyTuple [x]) (iter_py (PyList [PyInt 1, PyInt 2]))"
    and "featurize_many (example_env 3) double_featurizer (PyList [PyInt 1, PyInt 2]) False False
           (set_n_jobs 1 fresh_instance)
         = featurize_many (example_env 3) double_featurizer
             (PyList (map (\<lambda>x. PyTuple [x]) (iter_py (PyList [PyInt 1, PyInt 2])))) False False
             (set_n_jobs 1 fresh_instance)"
    by blast+
  then show ?thesis using ne by (simp add: eval_defs)
qed

text \<open>
  C8. For an empty sequence (an object with item access and no elements) and every
  flag combination that passes the configuration check, \<^verbatim>\<open>featurize_many\<close> returns the
  empty list. The instance afterwards differs from the one before only in the two flag
  attributes: its event log is unchanged, so neither \<^verbatim>\<open>featurize\<close> nor \<^verbatim>\<open>feature_labels\<close> was
  invoked and nothing was handed to a pool.
\<close>

theorem C8_empty_sequence:
  assumes "has_getitem entries" "iter_py entries = []"
    and "\<not> (return_errors \<and> \<not> ignore_errors)"
  shows "featurize_many e f entries ignore_errors return_errors s =
           (Inr [], s\<lparr>ignore_errors_attr := Some ignore_errors,
                      return_errors_attr := Some return_errors\<rparr>)
       \<and> calls (snd (featurize_many e f entries ignore_errors return_errors s)) = calls s"
  using assms by (simp add: featurize_many_empty)

theorem C8_witness:
  "has_getitem (PyList []) \<and> iter_py (PyList []) = []
   \<and> featurize_many (example_env 3) base_featurizer (PyList []) True True fresh_instance =
        (Inr [], fresh_instance\<lparr>ignore_errors_attr := Some True, return_errors_attr := Some True\<rparr>)
   \<and> calls (snd (featurize_many (example_env 3) base_featurizer (PyList []) True True fresh_instance)) = []"
proof -
  have a: "has_getitem (PyList [])" by (simp add: has_getitem_def)
  have b: "iter_py (PyList []) = []" by (simp add: iter_py_def)
  have c: "\<not> (True \<and> \<not> True)" by simp
  from C8_empty_sequence [OF a b c, of "example_env 3" base_featurizer fresh_instance]
  show ?thesis using a b by (simp add: fresh_instance_def)
qed

text \<open>
  C9. An entries object without \<^verbatim>\<open>__getitem__\<close> is rejected: for every flag combination
  that passes the configuration check (in particular the defaults), \<^verbatim>\<open>featurize_many\<close>
  raises \<^verbatim>\<open>Exception("'entries' must be a list-like object")\<close>, no list of rows is produced,
  and the event log of the instance is unchanged, so \<^verbatim>\<open>featurize\<close> was not invoked. The
  one flag combination left out, \<^verbatim>\<open>return_errors=True\<close> with \<^verbatim>\<open>ignore_errors=False\<close>, is the
  subject of C2 and C10.
\<close>

theorem C9_non_sequence_rejected:
  assumes "\<not> has_getitem entries"
    and "\<not> (return_errors \<and> \<not> ignore_errors)"
  shows "featurize_many e f entries ignore_errors return_errors s =
           (Inl (Exception shape_msg),
            s\<lparr>ignore_errors_attr := Some ignore_errors,
              return_errors_attr := Some return_errors\<rparr>)
       \<and> calls (snd (featurize_many e f entries ignore_errors return_errors s)) = calls s"
  using assms by (simp add: featurize_many_not_seq)

theorem C9_witness:
  "\<not> has_getitem (PyInt 3)
   \<and> featurize_many (example_env 3) double_featurizer (PyInt 3) False False fresh_instance =
        (Inl (Exception shape_msg),
         fresh_instance\<lparr>ignore_errors_attr := Some False, return_errors_attr := Some False\<rparr>)
   \<and> calls (snd (featurize_many (example_env 3) double_featurizer (PyInt 3) False False fresh_instance)) = []"
proof -
  have a: "\<not> has_getitem (PyInt 3)" by (simp add: has_getitem_def)
  have c: "\<not> (False \<and> \<not> False)" by simp
  from C9_non_sequence_rejected [OF a c, of "example_env 3" double_featurizer fresh_instance]
  show ?thesis using a by (simp add: fresh_instance_def)
qed

text \<open>
  C10. The configuration check comes first. For every entries object, a non-sequence
  and the empty sequence included, the call with \<^verbatim>\<open>return_errors=True\<close> and
  \<^verbatim>\<open>ignore_errors=False\<close> raises the configuration \<^verbatim>\<open>ValueError\<close>; it neither raises the
  input-shape error nor returns the empty list.
\<close>

theorem C10_config_check_first:
  "fst (featurize_many e f entries False True s) = Inl (ValueError config_msg)
   \<and> fst (featurize_many e f entries False True s) \<noteq> Inl (Exception shape_msg)
   \<and> fst (featurize_many e f entries False True s) \<noteq> Inr []"
  by (simp add: featurize_many_config)

end
